theory Spec2Isabelle
  imports Complex_Main "HOL-Library.Sublist"
begin

section \<open>JavaScript numbers and values\<close>

text \<open>
  A JavaScript number is modelled as an exact rational, or one of the three special
  values. Arithmetic on finite values is exact: the rounding error and the overflow of
  IEEE doubles are not modelled, and zero carries no sign. The special values follow
  IEEE 754 as JavaScript implements it (\<open>1/0 = Infinity\<close>, \<open>0/0 = NaN\<close>,
  \<open>0 * Infinity = NaN\<close>, every comparison with \<open>NaN\<close> is false).
\<close>

datatype jsnum = Fin rat | PInf | NInf | NaN

text \<open>
  The values the page itself passes to the numeric helpers: numbers, strings (text of
  input fields, fields of JSON documents), \<open>undefined\<close> and \<open>null\<close>. None of
  them makes a helper throw. The other values of the language (booleans, BigInts,
  Symbols, objects) are added in \<open>jsany\<close> below, with the helpers as functions that
  may throw.
\<close>

datatype jsval = JNum jsnum | JStr string | JUndefined | JNull

fun js_neg :: "jsnum \<Rightarrow> jsnum" where
  "js_neg (Fin x) = Fin (- x)"
| "js_neg PInf = NInf"
| "js_neg NInf = PInf"
| "js_neg NaN = NaN"

fun js_add :: "jsnum \<Rightarrow> jsnum \<Rightarrow> jsnum" where
  "js_add NaN _ = NaN"
| "js_add _ NaN = NaN"
| "js_add (Fin a) (Fin b) = Fin (a + b)"
| "js_add (Fin a) PInf = PInf"
| "js_add (Fin a) NInf = NInf"
| "js_add PInf (Fin b) = PInf"
| "js_add PInf PInf = PInf"
| "js_add PInf NInf = NaN"
| "js_add NInf (Fin b) = NInf"
| "js_add NInf PInf = NaN"
| "js_add NInf NInf = NInf"

definition js_sub :: "jsnum \<Rightarrow> jsnum \<Rightarrow> jsnum" where
  "js_sub a b = js_add a (js_neg b)"

text \<open>An infinity of the sign of \<open>s\<close>; \<open>NaN\<close> for \<open>s = 0\<close>.\<close>

definition js_inf :: "rat \<Rightarrow> jsnum" where
  "js_inf s = (if s = 0 then NaN else if 0 < s then PInf else NInf)"

fun js_mul :: "jsnum \<Rightarrow> jsnum \<Rightarrow> jsnum" where
  "js_mul NaN _ = NaN"
| "js_mul _ NaN = NaN"
| "js_mul (Fin a) (Fin b) = Fin (a * b)"
| "js_mul (Fin a) PInf = js_inf a"
| "js_mul (Fin a) NInf = js_inf (- a)"
| "js_mul PInf (Fin b) = js_inf b"
| "js_mul NInf (Fin b) = js_inf (- b)"
| "js_mul PInf PInf = PInf"
| "js_mul PInf NInf = NInf"
| "js_mul NInf PInf = NInf"
| "js_mul NInf NInf = PInf"

fun js_div :: "jsnum \<Rightarrow> jsnum \<Rightarrow> jsnum" where
  "js_div NaN _ = NaN"
| "js_div _ NaN = NaN"
| "js_div (Fin a) (Fin b) = (if b = 0 then js_inf a else Fin (a / b))"
| "js_div (Fin a) PInf = Fin 0"
| "js_div (Fin a) NInf = Fin 0"
| "js_div PInf (Fin b) = (if 0 \<le> b then PInf else NInf)"
| "js_div NInf (Fin b) = (if 0 \<le> b then NInf else PInf)"
| "js_div PInf PInf = NaN"
| "js_div PInf NInf = NaN"
| "js_div NInf PInf = NaN"
| "js_div NInf NInf = NaN"

text \<open>\<open>Math.abs\<close>, \<open>Math.max\<close> of two arguments, \<open>Math.floor\<close>, \<open>Math.round\<close>
  (to the nearest integer, a tie towards \<open>+Infinity\<close>).\<close>

fun Math_abs :: "jsnum \<Rightarrow> jsnum" where
  "Math_abs (Fin x) = Fin \<bar>x\<bar>"
| "Math_abs PInf = PInf"
| "Math_abs NInf = PInf"
| "Math_abs NaN = NaN"

fun Math_max :: "jsnum \<Rightarrow> jsnum \<Rightarrow> jsnum" where
  "Math_max NaN _ = NaN"
| "Math_max _ NaN = NaN"
| "Math_max PInf _ = PInf"
| "Math_max _ PInf = PInf"
| "Math_max NInf b = b"
| "Math_max a NInf = a"
| "Math_max (Fin a) (Fin b) = Fin (max a b)"

fun Math_floor :: "jsnum \<Rightarrow> jsnum" where
  "Math_floor (Fin x) = Fin (of_int \<lfloor>x\<rfloor>)"
| "Math_floor v = v"

fun Math_round :: "jsnum \<Rightarrow> jsnum" where
  "Math_round (Fin x) = Fin (of_int \<lfloor>x + 1 / 2\<rfloor>)"
| "Math_round v = v"

text \<open>\<open>Math.pow(10, d)\<close> for an integer \<open>d\<close>.\<close>

definition pow10 :: "int \<Rightarrow> rat" where
  "pow10 d = (if 0 \<le> d then 10 ^ nat d else 1 / 10 ^ nat (- d))"

definition Math_pow10 :: "int \<Rightarrow> jsnum" where
  "Math_pow10 d = Fin (pow10 d)"

text \<open>The relational operators \<open><\<close> and \<open>>\<close> on numbers, \<open>isNaN\<close> and \<open>isFinite\<close>.\<close>

fun js_less :: "jsnum \<Rightarrow> jsnum \<Rightarrow> bool" where
  "js_less NaN _ = False"
| "js_less _ NaN = False"
| "js_less (Fin a) (Fin b) = (a < b)"
| "js_less (Fin a) PInf = True"
| "js_less NInf (Fin b) = True"
| "js_less NInf PInf = True"
| "js_less _ _ = False"

definition js_greater :: "jsnum \<Rightarrow> jsnum \<Rightarrow> bool" where
  "js_greater a b = js_less b a"

fun isNaN :: "jsnum \<Rightarrow> bool" where
  "isNaN NaN = True"
| "isNaN _ = False"

fun isFinite :: "jsnum \<Rightarrow> bool" where
  "isFinite (Fin x) = True"
| "isFinite _ = False"

section \<open>utils.js: number precision and validation\<close>

text \<open>
  \<open>roundTo(value, decimals)\<close> and \<open>floorTo(value, decimals)\<close>. The guard
  \<open>typeof value !== 'number' || isNaN(value)\<close> returns 0; \<open>decimals\<close> is an
  integer (every call in the repository passes 3, 4, 6 or 8).
\<close>

fun roundTo :: "jsval \<Rightarrow> int \<Rightarrow> jsnum" where
  "roundTo (JNum v) decimals =
     (if isNaN v then Fin 0
      else let multiplier = Math_pow10 decimals
           in js_div (Math_round (js_mul v multiplier)) multiplier)"
| "roundTo _ decimals = Fin 0"

fun floorTo :: "jsval \<Rightarrow> int \<Rightarrow> jsnum" where
  "floorTo (JNum v) decimals =
     (if isNaN v then Fin 0
      else let multiplier = Math_pow10 decimals
           in js_div (Math_floor (js_mul v multiplier)) multiplier)"
| "floorTo _ decimals = Fin 0"

text \<open>The three "safe" operations, on numbers.\<close>

definition safeSubtract :: "jsnum \<Rightarrow> jsnum \<Rightarrow> jsnum" where
  "safeSubtract a b = roundTo (JNum (js_sub a b)) 8"

definition safeMultiply :: "jsnum \<Rightarrow> jsnum \<Rightarrow> jsnum" where
  "safeMultiply a b = roundTo (JNum (js_mul a b)) 8"

definition safeDivide :: "jsnum \<Rightarrow> jsnum \<Rightarrow> jsnum" where
  "safeDivide a b = (if b = Fin 0 then Fin 0 else roundTo (JNum (js_div a b)) 8)"

text \<open>
  \<open>parseNumber(value, defaultValue)\<close>. The built-in \<open>parseFloat\<close> is the
  parameter \<open>pf\<close>: a total function from strings to numbers.
\<close>

fun parseNumber :: "(string \<Rightarrow> jsnum) \<Rightarrow> jsval \<Rightarrow> jsnum \<Rightarrow> jsnum" where
  "parseNumber pf JNull defaultValue = defaultValue"
| "parseNumber pf JUndefined defaultValue = defaultValue"
| "parseNumber pf (JStr s) defaultValue =
     (if s = [] then defaultValue
      else let num = pf s in if isNaN num then defaultValue else num)"
| "parseNumber pf (JNum n) defaultValue = (if isNaN n then defaultValue else n)"

definition isPositiveNumber :: "(string \<Rightarrow> jsnum) \<Rightarrow> jsval \<Rightarrow> bool" where
  "isPositiveNumber pf v =
     (let num = parseNumber pf v (Fin 0) in js_greater num (Fin 0) \<and> isFinite num)"

section \<open>config.js: configuration and the pricing engine\<close>

text \<open>
  \<open>CONFIG\<close>: the fields the swap module reads. \<open>HIVEPOOL\<close> and \<open>SHIVEPOOL\<close> are
  overwritten by the liquidity refresh of market.js, so the pricing functions take the
  current \<open>CONFIG\<close> as an argument.
\<close>

record config =
  DECIMAL :: jsnum
  HIVEPOOL :: jsnum
  SHIVEPOOL :: jsnum
  BRIDGE_USER :: string
  MINIMUM_SWAP :: jsnum

definition CONFIG :: config where
  "CONFIG = \<lparr> DECIMAL = Fin 1000, HIVEPOOL = Fin 24900, SHIVEPOOL = Fin 24900,
              BRIDGE_USER = ''uswap'', MINIMUM_SWAP = Fin 1 \<rparr>"

text \<open>\<open>feeConfig\<close> of the swap module, replaced field by field by \<open>fetchFeeConfig\<close>;
  its initial value copies the fee constants of \<open>CONFIG\<close>.\<close>

record fee_config =
  BASE_FEE :: jsnum
  MIN_BASE_FEE :: jsnum
  DIFF_COEFFICIENT :: jsnum
  BASE_PRICE_HIVE_TO_SHIVE :: jsnum

definition feeConfig :: fee_config where
  "feeConfig = \<lparr> BASE_FEE = Fin (2 / 1000), MIN_BASE_FEE = Fin (75 / 100000),
                 DIFF_COEFFICIENT = Fin (575 / 100000), BASE_PRICE_HIVE_TO_SHIVE = Fin 1 \<rparr>"

text \<open>The local values of \<open>calculateFee\<close>, each as the source computes it.\<close>

definition fromPool :: "config \<Rightarrow> string \<Rightarrow> jsnum" where
  "fromPool C fromToken = (if fromToken = ''HIVE'' then HIVEPOOL C else SHIVEPOOL C)"

definition totalPool :: "config \<Rightarrow> jsnum" where
  "totalPool C = js_add (HIVEPOOL C) (SHIVEPOOL C)"

definition diff :: "config \<Rightarrow> jsnum \<Rightarrow> string \<Rightarrow> jsnum" where
  "diff C amount fromToken =
     js_sub (js_div (js_add (js_mul amount (Fin (1 / 2))) (fromPool C fromToken)) (totalPool C))
            (Fin (1 / 2))"

definition adjusted_base_fee :: "config \<Rightarrow> fee_config \<Rightarrow> jsnum \<Rightarrow> string \<Rightarrow> jsnum" where
  "adjusted_base_fee C F amount fromToken =
     Math_max
       (js_mul (BASE_FEE F) (js_sub (Fin 1) (js_mul (Fin 2) (Math_abs (diff C amount fromToken)))))
       (MIN_BASE_FEE F)"

definition price :: "config \<Rightarrow> fee_config \<Rightarrow> jsnum \<Rightarrow> string \<Rightarrow> jsnum" where
  "price C F amount fromToken =
     (if fromToken = ''HIVE''
      then js_sub (BASE_PRICE_HIVE_TO_SHIVE F)
             (js_mul (js_mul (Fin 2) (diff C amount fromToken)) (DIFF_COEFFICIENT F))
      else js_sub (js_div (Fin 1) (BASE_PRICE_HIVE_TO_SHIVE F))
             (js_mul (js_mul (Fin 2) (diff C amount fromToken)) (DIFF_COEFFICIENT F)))"

text \<open>
  The object \<open>calculateFee\<close> returns. Without a positive amount it has no
  \<open>expectedOutput\<close> property (\<open>None\<close>). Its \<open>feePercent\<close> is named
  \<open>feePercent_r\<close> here, apart from the field of the quote below.
\<close>

record fee_result =
  feeAmount :: jsnum
  feePercent_r :: jsnum
  expectedOutput :: "jsnum option"

definition calculateFee ::
  "(string \<Rightarrow> jsnum) \<Rightarrow> config \<Rightarrow> fee_config \<Rightarrow> jsnum \<Rightarrow> string \<Rightarrow> string \<Rightarrow> fee_result" where
  "calculateFee pf C F amount fromToken toToken =
     (if \<not> isPositiveNumber pf (JNum amount)
      then \<lparr> feeAmount = Fin 0, feePercent_r = Fin 0, expectedOutput = None \<rparr>
      else let fee = adjusted_base_fee C F amount fromToken;
               expectedOutput = js_mul (js_mul amount (price C F amount fromToken))
                                        (js_sub (Fin 1) fee);
               feeAmount = js_mul amount fee;
               feePercent = js_mul fee (Fin 100)
           in \<lparr> feeAmount = roundTo (JNum feeAmount) 8,
                feePercent_r = roundTo (JNum feePercent) 4,
                expectedOutput = Some (roundTo (JNum expectedOutput) 8) \<rparr>)"

text \<open>The quote of \<open>calculateExpectedOutput\<close>; \<open>currentSwap\<close> has the same three
  fields and five more. A missing \<open>expectedOutput\<close> is \<open>undefined\<close>, which the
  multiplication turns into \<open>NaN\<close>.\<close>

record quote =
  expected :: jsnum
  fee :: jsnum
  feePercent :: jsnum

definition to_number :: "jsnum option \<Rightarrow> jsnum" where
  "to_number v = (case v of None \<Rightarrow> NaN | Some x \<Rightarrow> x)"

definition calculateExpectedOutput ::
  "(string \<Rightarrow> jsnum) \<Rightarrow> config \<Rightarrow> fee_config \<Rightarrow> jsnum \<Rightarrow> string \<Rightarrow> string \<Rightarrow> quote" where
  "calculateExpectedOutput pf C F inputAmount fromToken toToken =
     (if \<not> isPositiveNumber pf (JNum inputAmount)
      then \<lparr> expected = Fin 0, fee = Fin 0, feePercent = Fin 0 \<rparr>
      else let result = calculateFee pf C F inputAmount fromToken toToken
           in \<lparr> expected = js_div (Math_floor (js_mul (to_number (expectedOutput result)) (DECIMAL C)))
                                    (DECIMAL C),
                fee = feeAmount result,
                feePercent = feePercent_r result \<rparr>)"

text \<open>
  \<open>currentSwap\<close> and \<open>updateSwapCalculation\<close>. The calls that only repaint the page
  and enable or disable the button are left out; the function returns the new
  \<open>currentSwap\<close>.
\<close>

record current_swap = quote +
  swap_from :: string
  swap_to :: string
  amount :: jsnum
  slippage :: jsnum
  minReceive :: jsnum

definition updateSwapCalculation ::
  "(string \<Rightarrow> jsnum) \<Rightarrow> config \<Rightarrow> fee_config \<Rightarrow> jsval \<Rightarrow> string \<Rightarrow> string \<Rightarrow> jsval \<Rightarrow> current_swap" where
  "updateSwapCalculation pf C F amount_in fromToken toToken slippage_in =
     (let amt = parseNumber pf amount_in (Fin 0);
          slp = parseNumber pf slippage_in (Fin (1 / 100));
          result = calculateExpectedOutput pf C F amt fromToken toToken;
          slippageFactor = js_sub (Fin 1) (js_div slp (Fin 100))
      in \<lparr> expected = expected result, fee = fee result, feePercent = feePercent result,
           swap_from = fromToken, swap_to = toToken, amount = amt, slippage = slp,
           minReceive = roundTo (JNum (safeMultiply (expected result) slippageFactor)) 3 \<rparr>)"

section \<open>utils.js and the quote pipeline on every JavaScript value\<close>

text \<open>
  The helpers are ordinary functions: a caller may pass any value. Beside the values of
  \<open>jsval\<close> (\<open>Plain\<close>) there are booleans, BigInts, Symbols and objects (arrays and
  functions included). The helpers do nothing with an object but coerce it to a
  primitive, so an object is what that coercion gives: \<open>None\<close> when its
  \<open>valueOf\<close> or \<open>toString\<close> throws, otherwise the value returned (a
  \<open>TypeError\<close> when that is again an object). The coercion of one object is taken to
  give the same result each time.
\<close>

datatype jsany = Plain jsval | JBool bool | JBigInt int | JSymbol | JObject "jsany option"

text \<open>What a helper throws: a \<open>TypeError\<close>, a \<open>RangeError\<close>, or whatever the
  conversion method of an object throws.\<close>

datatype js_error = TypeError | RangeError | Thrown

text \<open>
  \<open>ToPrimitive\<close> with the hint number, \<open>ToNumber\<close> and \<open>ToNumeric\<close> of
  ECMAScript. The conversion of a string to a number is the parameter \<open>sn\<close>.
\<close>

fun ToPrimitive :: "jsany \<Rightarrow> js_error + jsany" where
  "ToPrimitive (JObject None) = Inl Thrown"
| "ToPrimitive (JObject (Some (JObject c))) = Inl TypeError"
| "ToPrimitive (JObject (Some p)) = Inr p"
| "ToPrimitive v = Inr v"

fun ToNumber_prim :: "(string \<Rightarrow> jsnum) \<Rightarrow> jsany \<Rightarrow> js_error + jsnum" where
  "ToNumber_prim sn (Plain (JNum n)) = Inr n"
| "ToNumber_prim sn (Plain (JStr s)) = Inr (sn s)"
| "ToNumber_prim sn (Plain JUndefined) = Inr NaN"
| "ToNumber_prim sn (Plain JNull) = Inr (Fin 0)"
| "ToNumber_prim sn (JBool b) = Inr (Fin (if b then 1 else 0))"
| "ToNumber_prim sn (JBigInt i) = Inl TypeError"
| "ToNumber_prim sn JSymbol = Inl TypeError"
| "ToNumber_prim sn (JObject c) = Inl TypeError"

definition ToNumber :: "(string \<Rightarrow> jsnum) \<Rightarrow> jsany \<Rightarrow> js_error + jsnum" where
  "ToNumber sn v = (case ToPrimitive v of Inl e \<Rightarrow> Inl e | Inr p \<Rightarrow> ToNumber_prim sn p)"

datatype numeric = Num jsnum | Big int

definition ToNumeric :: "(string \<Rightarrow> jsnum) \<Rightarrow> jsany \<Rightarrow> js_error + numeric" where
  "ToNumeric sn v =
     (case ToPrimitive v of
        Inl e \<Rightarrow> Inl e
      | Inr p \<Rightarrow>
          (case p of
             JBigInt i \<Rightarrow> Inr (Big i)
           | _ \<Rightarrow> (case ToNumber_prim sn p of Inl e \<Rightarrow> Inl e | Inr n \<Rightarrow> Inr (Num n))))"

text \<open>
  \<open>a / b\<close>: both operands are converted, the left one first; a BigInt and a number do
  not mix; the quotient of two BigInts is truncated towards zero, and a BigInt divisor
  \<open>0n\<close> is a \<open>RangeError\<close>.
\<close>

definition js_divide :: "(string \<Rightarrow> jsnum) \<Rightarrow> jsany \<Rightarrow> jsany \<Rightarrow> js_error + jsany" where
  "js_divide sn a b =
     (case ToNumeric sn a of
        Inl e \<Rightarrow> Inl e
      | Inr x \<Rightarrow>
          (case ToNumeric sn b of
             Inl e \<Rightarrow> Inl e
           | Inr y \<Rightarrow>
               (case (x, y) of
                  (Num m, Num n) \<Rightarrow> Inr (Plain (JNum (js_div m n)))
                | (Big i, Big j) \<Rightarrow>
                    if j = 0 then Inl RangeError
                    else Inr (JBigInt (sgn i * sgn j * (\<bar>i\<bar> div \<bar>j\<bar>)))
                | _ \<Rightarrow> Inl TypeError)))"

text \<open>
  \<open>num > 0\<close>: the operand is converted to a primitive; a BigInt is compared by its
  value, anything else as a number.
\<close>

definition js_gt_zero :: "(string \<Rightarrow> jsnum) \<Rightarrow> jsany \<Rightarrow> js_error + bool" where
  "js_gt_zero sn v =
     (case ToPrimitive v of
        Inl e \<Rightarrow> Inl e
      | Inr p \<Rightarrow>
          (case p of
             JBigInt i \<Rightarrow> Inr (0 < i)
           | _ \<Rightarrow> (case ToNumber_prim sn p of Inl e \<Rightarrow> Inl e | Inr n \<Rightarrow> Inr (js_greater n (Fin 0)))))"

text \<open>
  \<open>Math.pow(10, d)\<close> for a number \<open>d\<close>; for a \<open>d\<close> that is not an integer it is
  the parameter \<open>pw\<close>.
\<close>

definition Math_pow10_num :: "(rat \<Rightarrow> jsnum) \<Rightarrow> jsnum \<Rightarrow> jsnum" where
  "Math_pow10_num pw d =
     (case d of
        NaN \<Rightarrow> NaN
      | PInf \<Rightarrow> PInf
      | NInf \<Rightarrow> Fin 0
      | Fin x \<Rightarrow> if x = of_int \<lfloor>x\<rfloor> then Math_pow10 \<lfloor>x\<rfloor> else pw x)"

text \<open>
  \<open>roundTo(value, decimals = 3)\<close> and \<open>floorTo(value, decimals = 3)\<close> with any two
  arguments. The default applies to an argument that is \<open>undefined\<close>. The guard
  comes first; \<open>Math.pow\<close> then converts \<open>decimals\<close> to a number.
\<close>

definition default_arg :: "jsany \<Rightarrow> jsany \<Rightarrow> jsany" where
  "default_arg v d = (if v = Plain JUndefined then d else v)"

definition roundTo_any ::
  "(string \<Rightarrow> jsnum) \<Rightarrow> (rat \<Rightarrow> jsnum) \<Rightarrow> jsany \<Rightarrow> jsany \<Rightarrow> js_error + jsnum" where
  "roundTo_any sn pw v decimals =
     (case v of
        Plain (JNum x) \<Rightarrow>
          if isNaN x then Inr (Fin 0)
          else (case ToNumber sn (default_arg decimals (Plain (JNum (Fin 3)))) of
                  Inl e \<Rightarrow> Inl e
                | Inr d \<Rightarrow>
                    (let multiplier = Math_pow10_num pw d
                     in Inr (js_div (Math_round (js_mul x multiplier)) multiplier)))
      | _ \<Rightarrow> Inr (Fin 0))"

definition floorTo_any ::
  "(string \<Rightarrow> jsnum) \<Rightarrow> (rat \<Rightarrow> jsnum) \<Rightarrow> jsany \<Rightarrow> jsany \<Rightarrow> js_error + jsnum" where
  "floorTo_any sn pw v decimals =
     (case v of
        Plain (JNum x) \<Rightarrow>
          if isNaN x then Inr (Fin 0)
          else (case ToNumber sn (default_arg decimals (Plain (JNum (Fin 3)))) of
                  Inl e \<Rightarrow> Inl e
                | Inr d \<Rightarrow>
                    (let multiplier = Math_pow10_num pw d
                     in Inr (js_div (Math_floor (js_mul x multiplier)) multiplier)))
      | _ \<Rightarrow> Inr (Fin 0))"

text \<open>\<open>safeDivide(a, b)\<close>: \<open>b === 0\<close> holds of the number zero only.\<close>

definition safeDivide_any ::
  "(string \<Rightarrow> jsnum) \<Rightarrow> (rat \<Rightarrow> jsnum) \<Rightarrow> jsany \<Rightarrow> jsany \<Rightarrow> js_error + jsnum" where
  "safeDivide_any sn pw a b =
     (if b = Plain (JNum (Fin 0)) then Inr (Fin 0)
      else (case js_divide sn a b of
              Inl e \<Rightarrow> Inl e
            | Inr q \<Rightarrow> roundTo_any sn pw q (Plain (JNum (Fin 8)))))"

text \<open>
  \<open>parseNumber(value, defaultValue)\<close>: what is not a string is returned as it is,
  unless the global \<open>isNaN\<close>, which converts its argument to a number, says it is not
  a number. \<open>isPositiveNumber(value)\<close>: \<open>num > 0 && isFinite(num)\<close>, where the
  global \<open>isFinite\<close> converts too.
\<close>

definition parseNumber_any ::
  "(string \<Rightarrow> jsnum) \<Rightarrow> (string \<Rightarrow> jsnum) \<Rightarrow> jsany \<Rightarrow> jsany \<Rightarrow> js_error + jsany" where
  "parseNumber_any pf sn v defaultValue =
     (if v = Plain JNull \<or> v = Plain JUndefined \<or> v = Plain (JStr []) then Inr defaultValue
      else (let num = (case v of Plain (JStr s) \<Rightarrow> Plain (JNum (pf s)) | _ \<Rightarrow> v)
            in case ToNumber sn num of
                 Inl e \<Rightarrow> Inl e
               | Inr n \<Rightarrow> Inr (if isNaN n then defaultValue else num)))"

definition isPositiveNumber_any ::
  "(string \<Rightarrow> jsnum) \<Rightarrow> (string \<Rightarrow> jsnum) \<Rightarrow> jsany \<Rightarrow> js_error + bool" where
  "isPositiveNumber_any pf sn v =
     (case parseNumber_any pf sn v (Plain (JNum (Fin 0))) of
        Inl e \<Rightarrow> Inl e
      | Inr num \<Rightarrow>
          (case js_gt_zero sn num of
             Inl e \<Rightarrow> Inl e
           | Inr gt \<Rightarrow>
               if \<not> gt then Inr False
               else (case ToNumber sn num of Inl e \<Rightarrow> Inl e | Inr n \<Rightarrow> Inr (isFinite n))))"

text \<open>
  \<open>calculateFee\<close>, \<open>calculateExpectedOutput\<close> and \<open>updateSwapCalculation\<close> with
  any amount and any slippage. Past the guard every use of the amount is an operand of
  \<open>*\<close>, which converts it to a number; \<open>fee_of\<close> is the body of \<open>calculateFee\<close>
  past its guard, on that number. The two tokens are only compared with \<open>===\<close> and
  stay strings.
\<close>

definition fee_of :: "config \<Rightarrow> fee_config \<Rightarrow> jsnum \<Rightarrow> string \<Rightarrow> fee_result" where
  "fee_of C F a fromToken =
     (let fee = adjusted_base_fee C F a fromToken;
          expectedOutput = js_mul (js_mul a (price C F a fromToken))
                                   (js_sub (Fin 1) fee);
          feeAmount = js_mul a fee;
          feePercent = js_mul fee (Fin 100)
      in \<lparr> feeAmount = roundTo (JNum feeAmount) 8,
           feePercent_r = roundTo (JNum feePercent) 4,
           expectedOutput = Some (roundTo (JNum expectedOutput) 8) \<rparr>)"

definition calculateFee_any ::
  "(string \<Rightarrow> jsnum) \<Rightarrow> (string \<Rightarrow> jsnum) \<Rightarrow> config \<Rightarrow> fee_config \<Rightarrow> jsany \<Rightarrow> string \<Rightarrow> string
     \<Rightarrow> js_error + fee_result" where
  "calculateFee_any pf sn C F amount_in fromToken toToken =
     (case isPositiveNumber_any pf sn amount_in of
        Inl e \<Rightarrow> Inl e
      | Inr positive \<Rightarrow>
          if \<not> positive then Inr \<lparr> feeAmount = Fin 0, feePercent_r = Fin 0, expectedOutput = None \<rparr>
          else (case ToNumber sn amount_in of
                  Inl e \<Rightarrow> Inl e
                | Inr a \<Rightarrow> Inr (fee_of C F a fromToken)))"

definition calculateExpectedOutput_any ::
  "(string \<Rightarrow> jsnum) \<Rightarrow> (string \<Rightarrow> jsnum) \<Rightarrow> config \<Rightarrow> fee_config \<Rightarrow> jsany \<Rightarrow> string \<Rightarrow> string
     \<Rightarrow> js_error + quote" where
  "calculateExpectedOutput_any pf sn C F inputAmount fromToken toToken =
     (case isPositiveNumber_any pf sn inputAmount of
        Inl e \<Rightarrow> Inl e
      | Inr positive \<Rightarrow>
          if \<not> positive then Inr \<lparr> expected = Fin 0, fee = Fin 0, feePercent = Fin 0 \<rparr>
          else (case calculateFee_any pf sn C F inputAmount fromToken toToken of
                  Inl e \<Rightarrow> Inl e
                | Inr result \<Rightarrow>
                    Inr \<lparr> expected = js_div (Math_floor (js_mul (to_number (expectedOutput result))
                                                                 (DECIMAL C))) (DECIMAL C),
                          fee = feeAmount result,
                          feePercent = feePercent_r result \<rparr>))"

record current_swap_any = quote +
  any_from :: string
  any_to :: string
  any_amount :: jsany
  any_slippage :: jsany
  any_minReceive :: jsnum

definition updateSwapCalculation_any ::
  "(string \<Rightarrow> jsnum) \<Rightarrow> (string \<Rightarrow> jsnum) \<Rightarrow> config \<Rightarrow> fee_config \<Rightarrow> jsany \<Rightarrow> string \<Rightarrow> string
     \<Rightarrow> jsany \<Rightarrow> js_error + current_swap_any" where
  "updateSwapCalculation_any pf sn C F amount_in fromToken toToken slippage_in =
     (case parseNumber_any pf sn amount_in (Plain (JNum (Fin 0))) of
        Inl e \<Rightarrow> Inl e
      | Inr amt \<Rightarrow>
          (case parseNumber_any pf sn slippage_in (Plain (JNum (Fin (1 / 100)))) of
             Inl e \<Rightarrow> Inl e
           | Inr slp \<Rightarrow>
               (case calculateExpectedOutput_any pf sn C F amt fromToken toToken of
                  Inl e \<Rightarrow> Inl e
                | Inr result \<Rightarrow>
                    (case ToNumber sn slp of
                       Inl e \<Rightarrow> Inl e
                     | Inr s \<Rightarrow>
                         (let slippageFactor = js_sub (Fin 1) (js_div s (Fin 100))
                          in Inr \<lparr> expected = expected result, fee = fee result,
                                   feePercent = feePercent result,
                                   any_from = fromToken, any_to = toToken,
                                   any_amount = amt, any_slippage = slp,
                                   any_minReceive =
                                     roundTo (JNum (safeMultiply (expected result) slippageFactor)) 3 \<rparr>)))))"

text \<open>The \<open>currentSwap\<close> of numbers as a \<open>currentSwap\<close> of values.\<close>

definition as_any :: "current_swap \<Rightarrow> current_swap_any" where
  "as_any cs =
     \<lparr> expected = expected cs, fee = fee cs, feePercent = feePercent cs,
       any_from = swap_from cs, any_to = swap_to cs,
       any_amount = Plain (JNum (amount cs)), any_slippage = Plain (JNum (slippage cs)),
       any_minReceive = minReceive cs \<rparr>"

section \<open>Formatting numbers: \<open>Number.prototype.toFixed\<close>\<close>

text \<open>
  \<open>x.toFixed(f)\<close> as ECMAScript specifies it: the sign apart, the integer \<open>n\<close>
  nearest to \<open>x * 10^f\<close> (the larger one at a tie), its decimal digits padded with
  zeros to \<open>f + 1\<close> places, and a point before the last \<open>f\<close>. From \<open>10^21\<close> on
  the result is the number's own string form, which is the parameter \<open>ns\<close>.
\<close>

fun digits_of :: "nat \<Rightarrow> string" where
  "digits_of n =
     (if n < 10 then [''0123456789'' ! n]
      else digits_of (n div 10) @ [''0123456789'' ! (n mod 10)])"

definition toFixed :: "(rat \<Rightarrow> string) \<Rightarrow> jsnum \<Rightarrow> nat \<Rightarrow> string" where
  "toFixed ns v f =
     (case v of
        NaN \<Rightarrow> ''NaN''
      | PInf \<Rightarrow> ''Infinity''
      | NInf \<Rightarrow> ''-Infinity''
      | Fin x \<Rightarrow>
          (let s = (if x < 0 then ''-'' else []);
               a = \<bar>x\<bar>
           in if 10 ^ 21 \<le> a then s @ ns a
              else let n = nat \<lfloor>a * 10 ^ f + 1 / 2\<rfloor>;
                       m = digits_of n;
                       m' = (if length m \<le> f then replicate (f + 1 - length m) (CHR ''0'') @ m else m);
                       k = length m'
                   in if f = 0 then s @ m'
                      else s @ take (k - f) m' @ ''.'' @ drop (k - f) m'))"

section \<open>config.js: swap history and its reconciliation\<close>

text \<open>
  A record of the persisted swap history. \<open>timestamp\<close> is in milliseconds. A field
  that is \<open>null\<close> or absent is \<open>None\<close>. The persisted history (the JSON text under
  the key \<open>swapHistory\<close>) is the list of its records.
\<close>

record swap_record =
  timestamp :: int
  txIdSent :: string
  amountSent :: string
  fromToken :: string
  toToken :: string
  username :: string
  status :: string
  txIdReceived :: "string option"
  amountReceived :: "string option"
  swappedQty :: "string option"
  swappedPrice :: "string option"

text \<open>The record \<open>addSwapToHistory(txId, amount, fromToken, username)\<close> creates at the
  time \<open>now\<close>, and the history it persists (lines 576 to 587): the new record first,
  the ten newest records of the user, then the records of the others. The call that ends
  the function is modelled with the wallet, below.\<close>

definition swapRecord ::
  "(rat \<Rightarrow> string) \<Rightarrow> int \<Rightarrow> string \<Rightarrow> jsnum \<Rightarrow> string \<Rightarrow> string \<Rightarrow> swap_record" where
  "swapRecord ns now txId amt fromTok user =
     \<lparr> timestamp = now, txIdSent = txId,
       amountSent = toFixed ns amt 3 @ '' '' @ fromTok,
       fromToken = fromTok,
       toToken = (if fromTok = ''HIVE'' then ''SWAP.HIVE'' else ''HIVE''),
       username = user, status = ''pending'',
       txIdReceived = None, amountReceived = None,
       swappedQty = None, swappedPrice = None \<rparr>"

definition capped_history ::
  "(rat \<Rightarrow> string) \<Rightarrow> int \<Rightarrow> string \<Rightarrow> jsnum \<Rightarrow> string \<Rightarrow> string \<Rightarrow> swap_record list
     \<Rightarrow> swap_record list" where
  "capped_history ns now txId amt fromTok user storage =
     (let history = swapRecord ns now txId amt fromTok user # storage;
          userHistory = take 10 (filter (\<lambda>h. username h = user) history);
          otherHistory = filter (\<lambda>h. username h \<noteq> user) history
      in userHistory @ otherHistory)"

text \<open>
  The bridge account's history as \<open>getAccountHistoryAsync\<close> returns it. An item has a
  transaction id and an operation; the payload of a \<open>custom_json\<close> operation is what
  \<open>JSON.parse\<close> makes of its text, \<open>None\<close> when parsing or reading it throws.
\<close>

record engine_payload =
  p_to :: string
  p_symbol :: string
  p_quantity :: string
  p_memo :: string

datatype engine_json =
  EngineJson (contractName: string) (contractAction: string) (contractPayload: "engine_payload option")

datatype operation =
    Transfer (t_from: string) (t_to: string) (t_amount: string) (t_memo: string)
  | CustomJson (cj_id: string) (cj_json: "engine_json option")
  | OtherOp

record hist_item =
  trx_id :: string
  item_op :: "operation option"

text \<open>\<open>memo.includes(id)\<close>: the id occurs in the memo as a contiguous substring.\<close>

fun str_includes :: "string \<Rightarrow> string \<Rightarrow> bool" where
  "str_includes [] pat = (pat = [])"
| "str_includes (c # cs) pat = (prefix pat (c # cs) \<or> str_includes cs pat)"

text \<open>
  \<open>memo.match(/LABEL\s*:\s*([\d.]+)/)\<close>: the captured group of the leftmost match.
  Of the characters \<open>\s\<close> matches, a \<open>char\<close> (a byte) can be the six of ASCII and
  the no-break space; the others (U+1680, U+2000 to U+200A, U+2028, U+2029, U+202F,
  U+205F, U+3000, U+FEFF) are outside the strings of this model.
\<close>

definition is_space :: "char \<Rightarrow> bool" where
  "is_space c = (c \<in> set [CHR 0x20, CHR 0x09, CHR 0x0A, CHR 0x0B, CHR 0x0C, CHR 0x0D, CHR 0xA0])"

definition is_digit_or_dot :: "char \<Rightarrow> bool" where
  "is_digit_or_dot c = (c \<in> set ''0123456789.'')"

definition match_here :: "string \<Rightarrow> string \<Rightarrow> string option" where
  "match_here label s =
     (if prefix label s
      then (case dropWhile is_space (drop (length label) s) of
              [] \<Rightarrow> None
            | c # r \<Rightarrow>
                if c = CHR '':''
                then (let d = takeWhile is_digit_or_dot (dropWhile is_space r)
                      in if d = [] then None else Some d)
                else None)
      else None)"

fun match_field :: "string \<Rightarrow> string \<Rightarrow> string option" where
  "match_field label [] = match_here label []"
| "match_field label (c # cs) =
     (case match_here label (c # cs) of
        Some d \<Rightarrow> Some d
      | None \<Rightarrow> match_field label cs)"

text \<open>The object a check returns when \<open>found\<close> is true; \<open>{found: false}\<close> is
  \<open>None\<close>.\<close>

record check_result =
  r_amount :: string
  r_txId :: string
  r_swappedQty :: "string option"
  r_swappedPrice :: "string option"
  r_memo :: string

definition found_result :: "string \<Rightarrow> string \<Rightarrow> string \<Rightarrow> check_result" where
  "found_result amt trxId memo =
     \<lparr> r_amount = amt, r_txId = trxId,
       r_swappedQty = match_field ''Swapped Qty'' memo,
       r_swappedPrice = match_field ''Swapped Price'' memo,
       r_memo = memo \<rparr>"

text \<open>
  The two ledgers and the clock. A query is asynchronous and its answer may change from
  one call to the next, so each answer depends on the number of queries made before it.
  A query that throws answers \<open>Inl\<close>. \<open>getTransactionAsync\<close> answers whether it
  returned a transaction (\<open>False\<close>: \<open>null\<close> or \<open>undefined\<close>).
\<close>

datatype tx_info = TxNull | TxInfo (transactionId: "string option")

record world =
  getAccountHistoryAsync :: "nat \<Rightarrow> string + hist_item list"
  getTransactionAsync :: "nat \<Rightarrow> string \<Rightarrow> string + bool"
  getSSC :: "nat \<Rightarrow> bool"
  getTransactionInfo :: "nat \<Rightarrow> string \<Rightarrow> string + tx_info"
  Date_now :: "nat \<Rightarrow> int"

datatype query = Q_getAccountHistory | Q_getTransaction string | Q_getTransactionInfo string

definition is_transfer_to :: "config \<Rightarrow> string \<Rightarrow> hist_item \<Rightarrow> bool" where
  "is_transfer_to C user item =
     (case item_op item of
        Some (Transfer f t a m) \<Rightarrow> f = BRIDGE_USER C \<and> t = user
      | _ \<Rightarrow> False)"

fun scan_transfers :: "string \<Rightarrow> hist_item list \<Rightarrow> check_result option" where
  "scan_transfers originalTxId [] = None"
| "scan_transfers originalTxId (item # items) =
     (case item_op item of
        Some (Transfer f t a m) \<Rightarrow>
          if str_includes m originalTxId then Some (found_result a (trx_id item) m)
          else scan_transfers originalTxId items
      | _ \<Rightarrow> scan_transfers originalTxId items)"

definition checkUswapHiveTransfers ::
  "world \<Rightarrow> config \<Rightarrow> string \<Rightarrow> string \<Rightarrow> query list \<Rightarrow> check_result option \<times> query list" where
  "checkUswapHiveTransfers W C originalTxId user qs =
     (case getAccountHistoryAsync W (length qs) of
        Inl e \<Rightarrow> (None, qs @ [Q_getAccountHistory])
      | Inr history \<Rightarrow>
          (let transfersToUser = filter (is_transfer_to C user) history
           in (scan_transfers originalTxId (rev transfersToUser), qs @ [Q_getAccountHistory])))"

definition is_engine_op :: "hist_item \<Rightarrow> bool" where
  "is_engine_op item =
     (case item_op item of
        Some (CustomJson i j) \<Rightarrow> i = ''ssc-mainnet-hive''
      | _ \<Rightarrow> False)"

fun scan_engine :: "string \<Rightarrow> string \<Rightarrow> hist_item list \<Rightarrow> check_result option" where
  "scan_engine originalTxId user [] = None"
| "scan_engine originalTxId user (item # items) =
     (case item_op item of
        Some (CustomJson i (Some (EngineJson cn ca (Some payload)))) \<Rightarrow>
          if cn = ''tokens'' \<and> ca = ''transfer'' \<and> p_to payload = user
             \<and> p_symbol payload = ''SWAP.HIVE'' \<and> str_includes (p_memo payload) originalTxId
          then Some (found_result (p_quantity payload @ '' SWAP.HIVE'') (trx_id item) (p_memo payload))
          else scan_engine originalTxId user items
      | _ \<Rightarrow> scan_engine originalTxId user items)"

definition checkUswapEngineTransfers ::
  "world \<Rightarrow> config \<Rightarrow> string \<Rightarrow> string \<Rightarrow> query list \<Rightarrow> check_result option \<times> query list" where
  "checkUswapEngineTransfers W C originalTxId user qs =
     (case getAccountHistoryAsync W (length qs) of
        Inl e \<Rightarrow> (None, qs @ [Q_getAccountHistory])
      | Inr history \<Rightarrow>
          (let customJsonOps = filter is_engine_op history
           in (scan_engine originalTxId user (rev customJsonOps), qs @ [Q_getAccountHistory])))"

definition truthy :: "string option \<Rightarrow> bool" where
  "truthy v = (case v of None \<Rightarrow> False | Some s \<Rightarrow> s \<noteq> [])"

definition verifyTransactionExists ::
  "world \<Rightarrow> string \<Rightarrow> string \<Rightarrow> query list \<Rightarrow> bool \<times> query list" where
  "verifyTransactionExists W txId fromTok qs =
     (if fromTok = ''HIVE''
      then (case getTransactionAsync W (length qs) txId of
              Inl e \<Rightarrow> (False, qs @ [Q_getTransaction txId])
            | Inr tx \<Rightarrow> (tx, qs @ [Q_getTransaction txId]))
      else if \<not> getSSC W (length qs) then (False, qs)
      else (case getTransactionInfo W (length qs) txId of
              Inl e \<Rightarrow> (False, qs @ [Q_getTransactionInfo txId])
            | Inr TxNull \<Rightarrow> (False, qs @ [Q_getTransactionInfo txId])
            | Inr (TxInfo tid) \<Rightarrow> (truthy tid, qs @ [Q_getTransactionInfo txId])))"

text \<open>The check of the bridge history on the ledger of the given token.\<close>

definition check_transfers ::
  "world \<Rightarrow> config \<Rightarrow> string \<Rightarrow> string \<Rightarrow> string \<Rightarrow> query list \<Rightarrow> check_result option \<times> query list" where
  "check_transfers W C token originalTxId user qs =
     (if token = ''HIVE'' then checkUswapHiveTransfers W C originalTxId user qs
      else checkUswapEngineTransfers W C originalTxId user qs)"

text \<open>
  The body of the loop of \<open>loadSwapHistory\<close> for one record of the user, in two parts:
  the backfill of a placeholder counterpart id, and the resolution of a pending record.
\<close>

definition backfill :: "world \<Rightarrow> config \<Rightarrow> string \<Rightarrow> swap_record \<Rightarrow> query list \<Rightarrow> swap_record \<times> query list" where
  "backfill W C user swap qs =
     (if (status swap = ''completed'' \<or> status swap = ''refunded'')
         \<and> (txIdReceived swap = Some ''uswap-transfer'' \<or> txIdReceived swap = Some ''uswap-refund'')
      then (case check_transfers W C (toToken swap) (txIdSent swap) user qs of
              (Some r, qs') \<Rightarrow> (swap\<lparr> txIdReceived := Some (r_txId r) \<rparr>, qs')
            | (None, qs') \<Rightarrow> (swap, qs'))
      else (swap, qs))"

definition resolve_pending :: "world \<Rightarrow> config \<Rightarrow> string \<Rightarrow> swap_record \<Rightarrow> query list \<Rightarrow> swap_record \<times> query list" where
  "resolve_pending W C user swap qs =
     (case check_transfers W C (toToken swap) (txIdSent swap) user qs of
        (Some r, qs1) \<Rightarrow>
          (swap\<lparr> status := ''completed'', amountReceived := Some (r_amount r),
                 txIdReceived := Some (r_txId r), swappedQty := r_swappedQty r,
                 swappedPrice := r_swappedPrice r \<rparr>, qs1)
      | (None, qs1) \<Rightarrow>
          (case check_transfers W C (fromToken swap) (txIdSent swap) user qs1 of
             (Some r, qs2) \<Rightarrow>
               (swap\<lparr> status := ''refunded'', amountReceived := Some (r_amount r),
                      txIdReceived := Some (r_txId r) \<rparr>, qs2)
           | (None, qs2) \<Rightarrow>
               (let now = Date_now W (length qs2);
                    swapAge = now - timestamp swap;
                    minimumWaitTime = 30 * 1000;
                    maximumWaitTime = 10 * 60 * 1000
                in if swapAge > minimumWaitTime \<and> swapAge < maximumWaitTime
                   then (case verifyTransactionExists W (txIdSent swap) (fromToken swap) qs2 of
                           (txExists, qs3) \<Rightarrow>
                             (if \<not> txExists then swap\<lparr> status := ''not-sent'' \<rparr> else swap, qs3))
                   else (swap, qs2))))"

definition check_swap :: "world \<Rightarrow> config \<Rightarrow> string \<Rightarrow> swap_record \<Rightarrow> query list \<Rightarrow> swap_record \<times> query list" where
  "check_swap W C user swap qs =
     (case backfill W C user swap qs of
        (swap1, qs1) \<Rightarrow>
          if status swap1 = ''pending'' then resolve_pending W C user swap1 qs1 else (swap1, qs1))"

text \<open>
  The loop runs over the records of the user in the order of the history and changes
  them in place; the records of other users are not visited.
\<close>

fun check_all :: "world \<Rightarrow> config \<Rightarrow> string \<Rightarrow> swap_record list \<Rightarrow> query list \<Rightarrow> swap_record list \<times> query list" where
  "check_all W C user [] qs = ([], qs)"
| "check_all W C user (h # hs) qs =
     (if username h = user
      then (case check_swap W C user h qs of
              (h', qs1) \<Rightarrow> (case check_all W C user hs qs1 of (hs', qs2) \<Rightarrow> (h' # hs', qs2)))
      else (case check_all W C user hs qs of (hs', qs2) \<Rightarrow> (h # hs', qs2)))"

text \<open>
  \<open>loadSwapHistory(username)\<close> from the persisted history it reads when it starts
  and the queries made so far: the list it returns, the history it persists when it
  ends, and the queries made. Between its start and its end it awaits every query; what
  else may happen to the persisted history meanwhile is the subject of \<open>app_state\<close>
  below.
\<close>

definition loadSwapHistory ::
  "world \<Rightarrow> config \<Rightarrow> string \<Rightarrow> swap_record list \<Rightarrow> query list
     \<Rightarrow> swap_record list \<times> swap_record list \<times> query list" where
  "loadSwapHistory W C user storage qs =
     (if user = [] then ([], storage, qs)
      else (case check_all W C user storage qs of
              (history, qs') \<Rightarrow>
                (take 10 (filter (\<lambda>h. username h = user) history), history, qs')))"

section \<open>config.js: submitting a swap\<close>

text \<open>
  The wallet module: the loaded user and the two balances. \<open>getBalance(symbol)\<close> is
  \<open>balances[symbol] || 0\<close>.
\<close>

record wallet =
  currentUser :: "string option"
  balance_HIVE :: jsnum
  balance_SWAP_HIVE :: jsnum

definition getBalance :: "wallet \<Rightarrow> string \<Rightarrow> jsnum" where
  "getBalance w symbol =
     (let b = (if symbol = ''HIVE'' then balance_HIVE w
               else if symbol = ''SWAP.HIVE'' then balance_SWAP_HIVE w
               else NaN)
      in if isNaN b then Fin 0 else b)"

text \<open>
  What the page keeps of the history: the persisted list, and the passes of
  \<open>loadSwapHistory\<close> that have read it and are waiting for the ledgers. A pass reads
  the persisted history once, when it starts (line 634 of config.js), and writes the
  whole list it read, with the statuses it resolved, after its last query has answered
  (line 716); it does not read the history again. A pass in flight is the user it runs
  for and the list it read.
\<close>

record app_state =
  swapHistory :: "swap_record list"
  in_flight :: "(string \<times> swap_record list) list"

text \<open>A record for which the loop of \<open>loadSwapHistory\<close> queries a ledger.\<close>

definition needs_check :: "swap_record \<Rightarrow> bool" where
  "needs_check swap =
     (((status swap = ''completed'' \<or> status swap = ''refunded'')
        \<and> (txIdReceived swap = Some ''uswap-transfer'' \<or> txIdReceived swap = Some ''uswap-refund''))
      \<or> status swap = ''pending'')"

text \<open>
  \<open>UIManager.updateSwapHistory()\<close> of ui.js, as far as the history is concerned (the
  table it repaints is left out). Without a loaded user it returns at once. Otherwise it
  calls \<open>loadSwapHistory\<close>, which runs up to its first query: when a record of the
  user needs a check the pass is in flight from then on; when none does, the pass makes no
  query and writes back at once the list it has just read.
\<close>

definition updateSwapHistory :: "wallet \<Rightarrow> app_state \<Rightarrow> app_state" where
  "updateSwapHistory w st =
     (case currentUser w of
        None \<Rightarrow> st
      | Some u \<Rightarrow>
          if u = [] then st
          else if list_ex (\<lambda>h. username h = u \<and> needs_check h) (swapHistory st)
               then st\<lparr> in_flight := in_flight st @ [(u, swapHistory st)] \<rparr>
               else st)"

text \<open>
  \<open>addSwapToHistory(txId, amount, fromToken, username)\<close> at the time \<open>now\<close>: it
  persists the capped history and then calls \<open>UIManager.updateSwapHistory()\<close>, which
  it does not await.
\<close>

definition addSwapToHistory ::
  "(rat \<Rightarrow> string) \<Rightarrow> wallet \<Rightarrow> int \<Rightarrow> string \<Rightarrow> jsnum \<Rightarrow> string \<Rightarrow> string \<Rightarrow> app_state
     \<Rightarrow> app_state" where
  "addSwapToHistory ns w now txId amt fromTok user st =
     updateSwapHistory w
       (st\<lparr> swapHistory := capped_history ns now txId amt fromTok user (swapHistory st) \<rparr>)"

text \<open>
  The pass number \<open>i\<close> in flight completes: the ledgers \<open>W\<close> answer its queries, and
  it persists the list it read with the statuses it resolved.
\<close>

definition complete_pass :: "world \<Rightarrow> config \<Rightarrow> nat \<Rightarrow> app_state \<Rightarrow> app_state" where
  "complete_pass W C i st =
     (if i < length (in_flight st)
      then (case in_flight st ! i of
              (u, snapshot) \<Rightarrow>
                st\<lparr> swapHistory := fst (snd (loadSwapHistory W C u snapshot [])),
                    in_flight := take i (in_flight st) @ drop (Suc i) (in_flight st) \<rparr>)
      else st)"

text \<open>
  \<open>validateSwapAmount\<close> collects error messages; the three messages are the three
  constructors, in the order the source pushes them.
\<close>

datatype amount_error = Amount_must_be_greater_than_0 | Minimum_swap_amount | Insufficient_balance

definition validateSwapAmount ::
  "(string \<Rightarrow> jsnum) \<Rightarrow> jsval \<Rightarrow> jsnum \<Rightarrow> jsnum \<Rightarrow> bool \<times> amount_error list \<times> jsnum" where
  "validateSwapAmount pf amt balance minAmount =
     (let num = parseNumber pf amt (Fin 0);
          errors = (if \<not> isPositiveNumber pf (JNum num) then [Amount_must_be_greater_than_0] else [])
                 @ (if js_less num minAmount then [Minimum_swap_amount] else [])
                 @ (if js_greater num balance then [Insufficient_balance] else [])
      in (errors = [], errors, num))"

datatype error =
    ValidationError_load_wallet
  | ValidationError "amount_error list"
  | TransactionError string

definition validateSwap ::
  "(string \<Rightarrow> jsnum) \<Rightarrow> config \<Rightarrow> wallet \<Rightarrow> current_swap \<Rightarrow> error + bool" where
  "validateSwap pf C w cs =
     (if \<not> truthy (currentUser w) then Inl ValidationError_load_wallet
      else (case validateSwapAmount pf (JNum (amount cs)) (getBalance w (swap_from cs)) (MINIMUM_SWAP C) of
              (valid, errors, num) \<Rightarrow> if \<not> valid then Inl (ValidationError errors) else Inr True))"

text \<open>
  The signing service (the Keychain extension). A request is what the source passes to
  \<open>requestTransfer\<close> or \<open>requestCustomJson\<close>; the JSON text of the latter is kept
  as the object it serialises. The service accepts with the transaction id read from
  its response (\<open>None\<close> when there is none), rejects with its message, or never calls
  back.
\<close>

datatype sign_request =
    RequestTransfer (rq_user: string) (rq_to: string) (rq_amount: string) (rq_memo: string) (rq_asset: string)
  | RequestCustomJson (rq_user: string) (rq_id: string) (rq_key: string) (rq_json: engine_json) (rq_title: string)

datatype sign_response = Accepted "string option" | Rejected "string option" | No_callback

record keychain =
  installed :: bool
  respond :: "sign_request \<Rightarrow> sign_response"

text \<open>The promise of a request: settled with an error or a transaction id, or never
  settled (\<open>None\<close>); and the requests made.\<close>

definition settle :: "sign_response \<Rightarrow> (error + string option) option" where
  "settle r =
     (case r of
        Accepted txId \<Rightarrow> Some (Inr (if truthy txId then txId else None))
      | Rejected msg \<Rightarrow>
          Some (Inl (TransactionError (case msg of None \<Rightarrow> ''Transaction rejected''
                                        | Some m \<Rightarrow> if m = [] then ''Transaction rejected'' else m)))
      | No_callback \<Rightarrow> None)"

definition executeHiveToSwapHive ::
  "(rat \<Rightarrow> string) \<Rightarrow> config \<Rightarrow> keychain \<Rightarrow> jsnum \<Rightarrow> string \<Rightarrow> string
     \<Rightarrow> (error + string option) option \<times> sign_request list" where
  "executeHiveToSwapHive ns C K amt user memo =
     (if \<not> installed K
      then (Some (Inl (TransactionError ''Hive Keychain extension not found. Please install it.'')), [])
      else (let request = RequestTransfer user (BRIDGE_USER C)
                            (toFixed ns (roundTo (JNum amt) 3) 3) memo ''HIVE''
            in (settle (respond K request), [request])))"

definition executeSwapHiveToHive ::
  "(rat \<Rightarrow> string) \<Rightarrow> config \<Rightarrow> keychain \<Rightarrow> jsnum \<Rightarrow> string \<Rightarrow> string
     \<Rightarrow> (error + string option) option \<times> sign_request list" where
  "executeSwapHiveToHive ns C K amt user memo =
     (if \<not> installed K
      then (Some (Inl (TransactionError ''Hive Keychain extension not found. Please install it.'')), [])
      else (let json = EngineJson ''tokens'' ''transfer''
                         (Some \<lparr> p_to = BRIDGE_USER C, p_symbol = ''SWAP.HIVE'',
                                 p_quantity = toFixed ns (roundTo (JNum amt) 3) 3, p_memo = memo \<rparr>);
                request = RequestCustomJson user ''ssc-mainnet-hive'' ''Active'' json ''SWAP.HIVE Transfer''
            in (settle (respond K request), [request])))"

text \<open>
  \<open>executeSwap()\<close>: what it returns (\<open>None\<close> when the signing service never calls
  back), the requests it made to the signing service, the persisted history after it,
  and the reconciliation passes it has started and not awaited. The messages it shows
  and the balance reload it schedules are left out.
\<close>

record swap_outcome =
  returned :: "bool option"
  requests :: "sign_request list"
  history_after :: "swap_record list"
  passes_started :: "(string \<times> swap_record list) list"

definition executeSwap ::
  "(string \<Rightarrow> jsnum) \<Rightarrow> (rat \<Rightarrow> string) \<Rightarrow> config \<Rightarrow> keychain \<Rightarrow> wallet \<Rightarrow> current_swap
     \<Rightarrow> int \<Rightarrow> swap_record list \<Rightarrow> swap_outcome" where
  "executeSwap pf ns C K w cs now storage =
     (case validateSwap pf C w cs of
        Inl e \<Rightarrow> \<lparr> returned = Some False, requests = [], history_after = storage, passes_started = [] \<rparr>
      | Inr ok \<Rightarrow>
          (let user = (case currentUser w of None \<Rightarrow> [] | Some u \<Rightarrow> u);
               minReceiveFormatted = toFixed ns (roundTo (JNum (minReceive cs)) 3) 3;
               memo = minReceiveFormatted
           in case (if swap_from cs = ''HIVE''
                    then executeHiveToSwapHive ns C K (amount cs) user memo
                    else executeSwapHiveToHive ns C K (amount cs) user memo) of
                (None, rqs) \<Rightarrow> \<lparr> returned = None, requests = rqs, history_after = storage, passes_started = [] \<rparr>
              | (Some (Inl e), rqs) \<Rightarrow>
                  \<lparr> returned = Some False, requests = rqs, history_after = storage, passes_started = [] \<rparr>
              | (Some (Inr None), rqs) \<Rightarrow>
                  \<lparr> returned = Some True, requests = rqs, history_after = storage, passes_started = [] \<rparr>
              | (Some (Inr (Some txId)), rqs) \<Rightarrow>
                  (let st = addSwapToHistory ns w now txId (amount cs) (swap_from cs) user
                              \<lparr> swapHistory = storage, in_flight = [] \<rparr>
                   in \<lparr> returned = Some True, requests = rqs,
                        history_after = swapHistory st, passes_started = in_flight st \<rparr>)))"

section \<open>The pricing algorithm and the rounding rules in the words of the specification\<close>

text \<open>Rounding and truncation of a rational to \<open>n\<close> decimal places.\<close>

definition round_dp :: "nat \<Rightarrow> rat \<Rightarrow> rat" where
  "round_dp n x = of_int \<lfloor>x * 10 ^ n + 1 / 2\<rfloor> / 10 ^ n"

definition floor_dp :: "nat \<Rightarrow> rat \<Rightarrow> rat" where
  "floor_dp n x = of_int \<lfloor>x * 10 ^ n\<rfloor> / 10 ^ n"



text \<open>The minimum to receive as the data model of the specification states it
  (truncated), and as step 6 of its algorithm states it (rounded).\<close>

definition spec_minReceive_floor :: "rat \<Rightarrow> rat \<Rightarrow> rat" where
  "spec_minReceive_floor expectedOut slippage_pct = floor_dp 3 (expectedOut * (1 - slippage_pct / 100))"

definition spec_minReceive_round :: "rat \<Rightarrow> rat \<Rightarrow> rat" where
  "spec_minReceive_round expectedOut slippage_pct =
     round_dp 3 (round_dp 8 (expectedOut * (1 - slippage_pct / 100)))"

section \<open>Notions the claims are stated with\<close>

text \<open>A sequence of submissions for one user with no pass completing in between: the
  history \<open>addSwapToHistory\<close> persists, for each in order, with the time, the
  transaction id, the amount and the input token of the submission.\<close>

fun addSwaps ::
  "(rat \<Rightarrow> string) \<Rightarrow> string \<Rightarrow> (int \<times> string \<times> jsnum \<times> string) list \<Rightarrow> swap_record list
     \<Rightarrow> swap_record list" where
  "addSwaps ns user [] storage = storage"
| "addSwaps ns user ((now, txId, amt, fromTok) # rest) storage =
     addSwaps ns user rest (capped_history ns now txId amt fromTok user storage)"

text \<open>
  What happens to the history of the page, in order: a swap is submitted (the signing
  service has answered with a transaction id and \<open>executeSwap\<close> calls
  \<open>addSwapToHistory\<close>), or a pass in flight completes.
\<close>

datatype event = Submit int string jsnum string | Complete world nat

fun run :: "(rat \<Rightarrow> string) \<Rightarrow> config \<Rightarrow> wallet \<Rightarrow> string \<Rightarrow> event list \<Rightarrow> app_state \<Rightarrow> app_state" where
  "run ns C w user [] st = st"
| "run ns C w user (Submit now txId amt fromTok # es) st =
     run ns C w user es (addSwapToHistory ns w now txId amt fromTok user st)"
| "run ns C w user (Complete W i # es) st = run ns C w user es (complete_pass W C i st)"

definition submission :: "int \<times> string \<times> jsnum \<times> string \<Rightarrow> event" where
  "submission s = (case s of (now, txId, amt, fromTok) \<Rightarrow> Submit now txId amt fromTok)"



text \<open>The same ledgers with every failed query answered in the negative: an empty
  history, no transaction.\<close>

definition failures_as_negative :: "world \<Rightarrow> world" where
  "failures_as_negative W =
     W\<lparr> getAccountHistoryAsync :=
          (\<lambda>n. case getAccountHistoryAsync W n of Inl e \<Rightarrow> Inr [] | Inr h \<Rightarrow> Inr h),
        getTransactionAsync :=
          (\<lambda>n t. case getTransactionAsync W n t of Inl e \<Rightarrow> Inr False | Inr b \<Rightarrow> Inr b),
        getTransactionInfo :=
          (\<lambda>n t. case getTransactionInfo W n t of Inl e \<Rightarrow> Inr TxNull | Inr i \<Rightarrow> Inr i) \<rparr>"

text \<open>The memo a request to the signing service carries.\<close>

fun request_memo :: "sign_request \<Rightarrow> string option" where
  "request_memo (RequestTransfer u t a m s) = Some m"
| "request_memo (RequestCustomJson u i k (EngineJson cn ca None) d) = None"
| "request_memo (RequestCustomJson u i k (EngineJson cn ca (Some p)) d) = Some (p_memo p)"

text \<open>An item of the bridge history that settles the submitted transaction \<open>txId\<close>
  for the user, on the primary and on the side ledger.\<close>

definition settles_on_hive :: "config \<Rightarrow> string \<Rightarrow> string \<Rightarrow> hist_item \<Rightarrow> bool" where
  "settles_on_hive C user txId item =
     (case item_op item of
        Some (Transfer f t a m) \<Rightarrow> f = BRIDGE_USER C \<and> t = user \<and> str_includes m txId
      | _ \<Rightarrow> False)"

definition settles_on_engine :: "string \<Rightarrow> string \<Rightarrow> hist_item \<Rightarrow> bool" where
  "settles_on_engine user txId item =
     (case item_op item of
        Some (CustomJson i (Some (EngineJson cn ca (Some p)))) \<Rightarrow>
          i = ''ssc-mainnet-hive'' \<and> cn = ''tokens'' \<and> ca = ''transfer'' \<and> p_to p = user
          \<and> p_symbol p = ''SWAP.HIVE'' \<and> str_includes (p_memo p) txId
      | _ \<Rightarrow> False)"

text \<open>The record a submission leaves in the history.\<close>

definition submitted :: "(rat \<Rightarrow> string) \<Rightarrow> string \<Rightarrow> int \<times> string \<times> jsnum \<times> string \<Rightarrow> swap_record" where
  "submitted ns user s = (case s of (now, txId, amt, fromTok) \<Rightarrow> swapRecord ns now txId amt fromTok user)"

text \<open>The existence query for a transaction, made as query number \<open>n\<close>, gives no
  answer: it throws, or the side-ledger client is missing.\<close>

definition existence_query_fails :: "world \<Rightarrow> string \<Rightarrow> string \<Rightarrow> nat \<Rightarrow> bool" where
  "existence_query_fails W txId fromTok n =
     (if fromTok = ''HIVE'' then isl (getTransactionAsync W n txId)
      else \<not> getSSC W n \<or> isl (getTransactionInfo W n txId))"

section \<open>Example ledgers, wallets and histories\<close>

text \<open>A pending swap of alice; ledgers on which every query fails, or which answer
  with a fixed bridge history and a fixed existence answer, at a fixed clock reading; a
  settlement of the bridge to alice on the side ledger with a given memo; a wallet, a
  signing service that accepts, a quote and eleven submissions.\<close>

definition alice_swap :: swap_record where
  "alice_swap = \<lparr> timestamp = 0, txIdSent = ''abc123'', amountSent = ''100.000 HIVE'',
                  fromToken = ''HIVE'', toToken = ''SWAP.HIVE'', username = ''alice'',
                  status = ''pending'', txIdReceived = None, amountReceived = None,
                  swappedQty = None, swappedPrice = None \<rparr>"

definition ledger_down :: "int \<Rightarrow> world" where
  "ledger_down t = \<lparr> getAccountHistoryAsync = (\<lambda>n. Inl ''timeout''),
                     getTransactionAsync = (\<lambda>n txId. Inl ''timeout''),
                     getSSC = (\<lambda>n. True),
                     getTransactionInfo = (\<lambda>n txId. Inl ''timeout''),
                     Date_now = (\<lambda>n. t) \<rparr>"

definition ledger_with :: "hist_item list \<Rightarrow> bool \<Rightarrow> int \<Rightarrow> world" where
  "ledger_with h present t =
     \<lparr> getAccountHistoryAsync = (\<lambda>n. Inr h),
       getTransactionAsync = (\<lambda>n txId. Inr present),
       getSSC = (\<lambda>n. True),
       getTransactionInfo = (\<lambda>n txId. Inr (if present then TxInfo (Some txId) else TxNull)),
       Date_now = (\<lambda>n. t) \<rparr>"

definition settlement :: "string \<Rightarrow> hist_item" where
  "settlement memo =
     \<lparr> trx_id = ''def456'',
       item_op = Some (CustomJson ''ssc-mainnet-hive''
                  (Some (EngineJson ''tokens'' ''transfer''
                     (Some \<lparr> p_to = ''alice'', p_symbol = ''SWAP.HIVE'',
                             p_quantity = ''99.800'', p_memo = memo \<rparr>)))) \<rparr>"

definition alice_wallet :: wallet where
  "alice_wallet = \<lparr> currentUser = Some ''alice'', balance_HIVE = Fin 500, balance_SWAP_HIVE = Fin 0 \<rparr>"

definition keychain_accepting :: "string \<Rightarrow> keychain" where
  "keychain_accepting txId = \<lparr> installed = True, respond = (\<lambda>rq. Accepted (Some txId)) \<rparr>"

definition alice_quote :: current_swap where
  "alice_quote = updateSwapCalculation (\<lambda>s. NaN) CONFIG feeConfig (JNum (Fin 100)) ''HIVE'' ''SWAP.HIVE''
                   (JNum (Fin (1 / 100)))"

definition eleven_submissions :: "(int \<times> string \<times> jsnum \<times> string) list" where
  "eleven_submissions =
     [(1, ''t01'', Fin 1, ''HIVE''), (2, ''t02'', Fin 2, ''HIVE''), (3, ''t03'', Fin 3, ''SWAP.HIVE''),
      (4, ''t04'', Fin 4, ''HIVE''), (5, ''t05'', Fin 5, ''HIVE''), (6, ''t06'', Fin 6, ''SWAP.HIVE''),
      (7, ''t07'', Fin 7, ''HIVE''), (8, ''t08'', Fin 8, ''HIVE''), (9, ''t09'', Fin 9, ''SWAP.HIVE''),
      (10, ''t10'', Fin 10, ''HIVE''), (11, ''t11'', Fin 11, ''HIVE'')]"

text \<open>The eleven submissions, with the pass that the first of them started completing
  after the second: the ledgers show no settlement yet.\<close>

definition overlapping_submissions :: "event list" where
  "overlapping_submissions =
     map submission (take 2 eleven_submissions)
     @ [Complete (ledger_with [] True 3) 0]
     @ map submission (drop 2 eleven_submissions)"

section \<open>Facts about the numeric helpers\<close>

lemma floor_half: "\<lfloor>1 / 2 :: rat\<rfloor> = 0"
  by (rule floor_unique) simp_all

lemma pow10_pos: "0 < pow10 d"
  by (simp add: pow10_def)

lemma pow10_nat: "pow10 (int n) = 10 ^ n"
  by (simp add: pow10_def)

lemma roundTo_Fin: "roundTo (JNum (Fin x)) d = Fin (of_int \<lfloor>x * pow10 d + 1 / 2\<rfloor> / pow10 d)"
  using pow10_pos [of d] by (simp add: Math_pow10_def Let_def)

lemma floorTo_Fin: "floorTo (JNum (Fin x)) d = Fin (of_int \<lfloor>x * pow10 d\<rfloor> / pow10 d)"
  using pow10_pos [of d] by (simp add: Math_pow10_def Let_def)

lemma roundTo_PInf: "roundTo (JNum PInf) d = PInf"
  using pow10_pos [of d] by (simp add: Math_pow10_def Let_def js_inf_def)

lemma roundTo_NInf: "roundTo (JNum NInf) d = NInf"
  using pow10_pos [of d] by (simp add: Math_pow10_def Let_def js_inf_def)

lemma roundTo_NaN: "roundTo (JNum NaN) d = Fin 0"
  by simp

lemma roundTo_JStr: "roundTo (JStr s) d = Fin 0" and roundTo_JUndefined: "roundTo JUndefined d = Fin 0"
  and roundTo_JNull: "roundTo JNull d = Fin 0"
  by simp_all

declare roundTo.simps [simp del] floorTo.simps [simp del]

lemmas roundTo_simps = roundTo_Fin roundTo_PInf roundTo_NInf roundTo_NaN roundTo_JStr roundTo_JUndefined roundTo_JNull

lemma roundTo_round_dp: "roundTo (JNum (Fin x)) (int n) = Fin (round_dp n x)"
  by (simp add: roundTo_Fin pow10_nat round_dp_def)

lemma roundTo_8: "roundTo (JNum (Fin x)) 8 = Fin (round_dp 8 x)"
  using roundTo_round_dp [of x 8] by simp


lemma roundTo_3: "roundTo (JNum (Fin x)) 3 = Fin (round_dp 3 x)"
  using roundTo_round_dp [of x 3] by simp

lemma isPositiveNumber_Fin: "isPositiveNumber pf (JNum (Fin a)) = (0 < a)"
  by (simp add: isPositiveNumber_def js_greater_def)

lemma roundTo_not_number: "v = JNum NaN \<or> (\<forall>x. v \<noteq> JNum x) \<Longrightarrow> roundTo v d = Fin 0"
  by (cases v) (auto simp: roundTo_simps)

lemma floorTo_not_number: "v = JNum NaN \<or> (\<forall>x. v \<noteq> JNum x) \<Longrightarrow> floorTo v d = Fin 0"
  by (cases v) (auto simp: floorTo.simps)

lemma parseNumber_not_NaN: "\<not> isNaN dflt \<Longrightarrow> \<not> isNaN (parseNumber pf v dflt)"
  by (cases v) (auto simp: Let_def)

lemma parseNumber_idem: "\<not> isNaN dflt \<Longrightarrow> parseNumber pf (JNum (parseNumber pf v dflt)) dflt' = parseNumber pf v dflt"
  using parseNumber_not_NaN [of dflt pf v] by simp

lemma isPositiveNumber_parse:
  "isPositiveNumber pf (JNum (parseNumber pf v (Fin 0))) = isPositiveNumber pf v"
  using parseNumber_not_NaN [of "Fin 0" pf v] by (simp add: isPositiveNumber_def)

lemma zero_times_rounds_to_zero: "\<not> isNaN f \<Longrightarrow> roundTo (JNum (safeMultiply (Fin 0) f)) 3 = Fin 0"
  by (cases f) (auto simp: safeMultiply_def js_inf_def roundTo_simps floor_half)

lemma slippageFactor_not_NaN: "\<not> isNaN s \<Longrightarrow> \<not> isNaN (js_sub (Fin 1) (js_div s (Fin 100)))"
  by (cases s) (auto simp: js_sub_def)

lemma floor_rat_numeral_div: "\<lfloor>numeral a / numeral b :: rat\<rfloor> = numeral a div numeral b"
  by (metis floor_divide_of_int_eq of_int_numeral)

lemma floor_rat_neg_numeral_div: "\<lfloor>- numeral a / numeral b :: rat\<rfloor> = - numeral a div numeral b"
  by (metis floor_divide_of_int_eq of_int_numeral of_int_minus)

lemma floor_rat_of_int_div: "\<lfloor>rat_of_int k / numeral b\<rfloor> = k div numeral b"
  by (metis floor_divide_of_int_eq of_int_numeral)

lemmas floor_rat = floor_rat_numeral_div floor_rat_neg_numeral_div floor_rat_of_int_div



lemma minReceive_Fin:
  assumes "expected (updateSwapCalculation pf C F amount_in fromTok toTok slippage_in) = Fin e"
    and "slippage (updateSwapCalculation pf C F amount_in fromTok toTok slippage_in) = Fin s"
  shows "minReceive (updateSwapCalculation pf C F amount_in fromTok toTok slippage_in)
           = Fin (spec_minReceive_round e s)"
  using assms
  by (simp add: updateSwapCalculation_def Let_def safeMultiply_def js_sub_def roundTo_8 roundTo_3
      spec_minReceive_round_def)








lemma round_dp_upper: "round_dp n x \<le> x + 1 / (2 * 10 ^ n)"
proof -
  have "rat_of_int \<lfloor>x * 10 ^ n + 1 / 2\<rfloor> \<le> x * 10 ^ n + 1 / 2"
    by (rule of_int_floor_le)
  then have "rat_of_int \<lfloor>x * 10 ^ n + 1 / 2\<rfloor> / 10 ^ n \<le> (x * 10 ^ n + 1 / 2) / 10 ^ n"
    by (intro divide_right_mono) simp_all
  then show ?thesis
    by (simp add: round_dp_def add_divide_distrib)
qed

lemma round_dp_lower: "x - 1 / (2 * 10 ^ n) < round_dp n x"
proof -
  have "x * 10 ^ n + 1 / 2 < rat_of_int \<lfloor>x * 10 ^ n + 1 / 2\<rfloor> + 1"
    by linarith
  then have "x * 10 ^ n - 1 / 2 < rat_of_int \<lfloor>x * 10 ^ n + 1 / 2\<rfloor>"
    by simp
  then have "(x * 10 ^ n - 1 / 2) / 10 ^ n < rat_of_int \<lfloor>x * 10 ^ n + 1 / 2\<rfloor> / 10 ^ n"
    by (intro divide_strict_right_mono) simp_all
  then show ?thesis
    by (simp add: round_dp_def diff_divide_distrib)
qed

lemma round_dp_multiple: "\<exists>k. round_dp n x = of_int k / 10 ^ n"
  unfolding round_dp_def by blast


lemma spec_minReceive_round_near:
  "\<exists>k. spec_minReceive_round e s = of_int k / 1000
     \<and> \<bar>of_int k / 1000 - e * (1 - s / 100)\<bar> \<le> 1 / 2000 + 1 / 10 ^ 8"
proof -
  define p where "p = e * (1 - s / 100)"
  define y where "y = round_dp 8 p"
  define m where "m = round_dp 3 y"
  obtain k where k: "m = of_int k / 10 ^ 3"
    unfolding m_def using round_dp_multiple by blast
  have a: "m \<le> y + 1 / 2000" and b: "y - 1 / 2000 < m"
    unfolding m_def using round_dp_upper [of 3 y] round_dp_lower [of y 3] by simp_all
  have c: "y \<le> p + 1 / 200000000" and d: "p - 1 / 200000000 < y"
    unfolding y_def using round_dp_upper [of 8 p] round_dp_lower [of p 8] by simp_all
  have "m - p \<le> 1 / 2000 + 1 / 100000000" "- (1 / 2000 + 1 / 100000000) \<le> m - p"
    using a b c d by linarith+
  then have "\<bar>m - p\<bar> \<le> 1 / 2000 + 1 / 100000000"
    by (intro abs_leI) linarith+
  then have "\<bar>m - p\<bar> \<le> 1 / 2000 + 1 / 10 ^ 8"
    by simp
  moreover have "spec_minReceive_round e s = m"
    by (simp add: spec_minReceive_round_def m_def y_def p_def)
  ultimately show ?thesis
    using k unfolding p_def by auto
qed





section \<open>Facts about the helpers on every value\<close>

lemma ToNumber_Plain:
  "ToNumber sn (Plain v) = Inr (case v of JNum n \<Rightarrow> n | JStr s \<Rightarrow> sn s | JUndefined \<Rightarrow> NaN | JNull \<Rightarrow> Fin 0)"
  by (cases v) (simp_all add: ToNumber_def)

lemma ToNumber_JNum: "ToNumber sn (Plain (JNum n)) = Inr n"
  by (simp add: ToNumber_def)

lemma js_gt_zero_ToNumber:
  "ToNumber sn v = Inr a \<Longrightarrow> js_gt_zero sn v = Inr (js_greater a (Fin 0))"
  by (cases v rule: ToPrimitive.cases)
     (auto simp: ToNumber_def js_gt_zero_def split: sum.splits jsany.splits)

lemma parseNumber_any_Plain:
  "parseNumber_any pf sn (Plain v) (Plain (JNum d)) = Inr (Plain (JNum (parseNumber pf v d)))"
  by (cases v) (simp_all add: parseNumber_any_def ToNumber_JNum Let_def)

lemma parseNumber_any_isl: "isl (parseNumber_any pf sn v d) \<longleftrightarrow> isl (ToNumber sn v)"
proof (cases v)
  case (Plain x)
  then show ?thesis
    by (cases x) (simp_all add: parseNumber_any_def ToNumber_JNum ToNumber_Plain Let_def)
qed (auto simp: parseNumber_any_def Let_def split: sum.splits)

lemma parseNumber_any_result:
  assumes "parseNumber_any pf sn v (Plain (JNum d)) = Inr r" and "\<not> isNaN d"
  shows "\<exists>n. ToNumber sn r = Inr n \<and> \<not> isNaN n \<and> parseNumber_any pf sn r d' = Inr r"
proof (cases v)
  case (Plain x)
  then have "r = Plain (JNum (parseNumber pf x d))"
    using assms(1) by (simp add: parseNumber_any_Plain)
  then show ?thesis
    using parseNumber_not_NaN [OF assms(2), of pf x]
    by (simp add: ToNumber_JNum parseNumber_any_def)
qed (use assms in \<open>auto simp: parseNumber_any_def ToNumber_JNum Let_def split: sum.splits if_splits\<close>)

lemma isPositiveNumber_any_fix:
  assumes "ToNumber sn r = Inr n" and "\<not> isNaN n"
    and "parseNumber_any pf sn r (Plain (JNum (Fin 0))) = Inr r"
  shows "isPositiveNumber_any pf sn r = Inr (isPositiveNumber pf (JNum n))"
  using assms js_gt_zero_ToNumber [OF assms(1)]
  by (simp add: isPositiveNumber_any_def isPositiveNumber_def)

lemma calculateFee_fee_of:
  "calculateFee pf C F a fromTok toTok =
     (if \<not> isPositiveNumber pf (JNum a)
      then \<lparr> feeAmount = Fin 0, feePercent_r = Fin 0, expectedOutput = None \<rparr>
      else fee_of C F a fromTok)"
  by (simp add: calculateFee_def fee_of_def)

lemma calculateExpectedOutput_any_fix:
  assumes "ToNumber sn r = Inr n" and "\<not> isNaN n"
    and "parseNumber_any pf sn r (Plain (JNum (Fin 0))) = Inr r"
  shows "calculateExpectedOutput_any pf sn C F r fromTok toTok
           = Inr (calculateExpectedOutput pf C F n fromTok toTok)"
  using assms(1)
  by (simp add: calculateExpectedOutput_any_def calculateFee_any_def calculateExpectedOutput_def
      calculateFee_fee_of isPositiveNumber_any_fix [OF assms] Let_def)

lemma updateSwapCalculation_any_eq:
  assumes "parseNumber_any pf sn amount_in (Plain (JNum (Fin 0))) = Inr amt"
    and "parseNumber_any pf sn slippage_in (Plain (JNum (Fin (1 / 100)))) = Inr slp"
  shows "\<exists>a s. ToNumber sn amt = Inr a \<and> \<not> isNaN a \<and> ToNumber sn slp = Inr s \<and> \<not> isNaN s
    \<and> isPositiveNumber_any pf sn amount_in = Inr (isPositiveNumber pf (JNum a))
    \<and> updateSwapCalculation_any pf sn C F amount_in fromTok toTok slippage_in =
       Inr \<lparr> expected = expected (calculateExpectedOutput pf C F a fromTok toTok),
             fee = fee (calculateExpectedOutput pf C F a fromTok toTok),
             feePercent = feePercent (calculateExpectedOutput pf C F a fromTok toTok),
             any_from = fromTok, any_to = toTok, any_amount = amt, any_slippage = slp,
             any_minReceive =
               roundTo (JNum (safeMultiply (expected (calculateExpectedOutput pf C F a fromTok toTok))
                                (js_sub (Fin 1) (js_div s (Fin 100))))) 3 \<rparr>"
proof -
  obtain a where a: "ToNumber sn amt = Inr a" "\<not> isNaN a"
    "parseNumber_any pf sn amt (Plain (JNum (Fin 0))) = Inr amt"
    using parseNumber_any_result [OF assms(1), of "Plain (JNum (Fin 0))"] by auto
  obtain s where s: "ToNumber sn slp = Inr s" "\<not> isNaN s"
    using parseNumber_any_result [OF assms(2)] by auto
  have p: "isPositiveNumber_any pf sn amount_in = isPositiveNumber_any pf sn amt"
    by (simp add: isPositiveNumber_any_def assms(1) a(3))
  show ?thesis
    using a(1,2) s p
    by (simp add: updateSwapCalculation_any_def assms calculateExpectedOutput_any_fix [OF a]
        isPositiveNumber_any_fix [OF a] Let_def)
qed

lemma updateSwapCalculation_any_isl:
  "isl (updateSwapCalculation_any pf sn C F amount_in fromTok toTok slippage_in)
     \<longleftrightarrow> isl (ToNumber sn amount_in) \<or> isl (ToNumber sn slippage_in)"
proof (cases "parseNumber_any pf sn amount_in (Plain (JNum (Fin 0)))")
  case (Inl e)
  then show ?thesis
    using parseNumber_any_isl [of pf sn amount_in "Plain (JNum (Fin 0))"]
    by (simp add: updateSwapCalculation_any_def)
next
  case amt: (Inr amt)
  then have na: "\<not> isl (ToNumber sn amount_in)"
    using parseNumber_any_isl [of pf sn amount_in "Plain (JNum (Fin 0))"] by simp
  show ?thesis
  proof (cases "parseNumber_any pf sn slippage_in (Plain (JNum (Fin (1 / 100))))")
    case (Inl e)
    then show ?thesis
      using parseNumber_any_isl [of pf sn slippage_in "Plain (JNum (Fin (1 / 100)))"] amt
      by (simp add: updateSwapCalculation_any_def)
  next
    case slp: (Inr slp)
    then have ns: "\<not> isl (ToNumber sn slippage_in)"
      using parseNumber_any_isl [of pf sn slippage_in "Plain (JNum (Fin (1 / 100)))"] by simp
    show ?thesis
      using updateSwapCalculation_any_eq [OF amt slp, of C F fromTok toTok] na ns by auto
  qed
qed

lemma updateSwapCalculation_any_Plain:
  "updateSwapCalculation_any pf sn C F (Plain a) fromTok toTok (Plain s)
     = Inr (as_any (updateSwapCalculation pf C F a fromTok toTok s))"
proof -
  have a: "parseNumber_any pf sn (Plain a) (Plain (JNum (Fin 0))) = Inr (Plain (JNum (parseNumber pf a (Fin 0))))"
    and s: "parseNumber_any pf sn (Plain s) (Plain (JNum (Fin (1 / 100))))
              = Inr (Plain (JNum (parseNumber pf s (Fin (1 / 100)))))"
    by (rule parseNumber_any_Plain)+
  show ?thesis
    using updateSwapCalculation_any_eq [OF a s, of C F fromTok toTok]
    by (auto simp: ToNumber_JNum as_any_def updateSwapCalculation_def Let_def)
qed

lemma roundTo_any_guard:
  "(\<forall>x. v \<noteq> Plain (JNum x)) \<or> v = Plain (JNum NaN) \<Longrightarrow> roundTo_any sn pw v d = Inr (Fin 0)"
  by (auto simp: roundTo_any_def split: jsany.splits jsval.splits)

lemma floorTo_any_guard:
  "(\<forall>x. v \<noteq> Plain (JNum x)) \<or> v = Plain (JNum NaN) \<Longrightarrow> floorTo_any sn pw v d = Inr (Fin 0)"
  by (auto simp: floorTo_any_def split: jsany.splits jsval.splits)

lemma roundTo_any_isl:
  "isl (roundTo_any sn pw v d) \<longleftrightarrow>
     (\<exists>x. v = Plain (JNum x) \<and> \<not> isNaN x) \<and> isl (ToNumber sn (default_arg d (Plain (JNum (Fin 3)))))"
  by (auto simp: roundTo_any_def Let_def split: jsany.splits jsval.splits sum.splits)

lemma floorTo_any_isl:
  "isl (floorTo_any sn pw v d) \<longleftrightarrow>
     (\<exists>x. v = Plain (JNum x) \<and> \<not> isNaN x) \<and> isl (ToNumber sn (default_arg d (Plain (JNum (Fin 3)))))"
  by (auto simp: floorTo_any_def Let_def split: jsany.splits jsval.splits sum.splits)

lemma Math_pow10_num_int: "Math_pow10_num pw (Fin (of_int d)) = Math_pow10 d"
  by (simp add: Math_pow10_num_def)

lemma roundTo_any_Plain:
  "roundTo_any sn pw (Plain v) (Plain (JNum (Fin (of_int d)))) = Inr (roundTo v d)"
  by (cases v)
     (simp_all add: roundTo_any_def roundTo.simps default_arg_def ToNumber_JNum Math_pow10_num_int Let_def)

lemma floorTo_any_Plain:
  "floorTo_any sn pw (Plain v) (Plain (JNum (Fin (of_int d)))) = Inr (floorTo v d)"
  by (cases v)
     (simp_all add: floorTo_any_def floorTo.simps default_arg_def ToNumber_JNum Math_pow10_num_int Let_def)

lemma ToNumeric_JNum: "ToNumeric sn (Plain (JNum n)) = Inr (Num n)"
  by (simp add: ToNumeric_def)

lemma safeDivide_any_numbers:
  "safeDivide_any sn pw (Plain (JNum a)) (Plain (JNum b)) = Inr (safeDivide a b)"
  using roundTo_any_Plain [of sn pw "JNum (js_div a b)" 8]
  by (simp add: safeDivide_any_def safeDivide_def js_divide_def ToNumeric_JNum)

lemma safeDivide_any_zero: "safeDivide_any sn pw a (Plain (JNum (Fin 0))) = Inr (Fin 0)"
  by (simp add: safeDivide_any_def)

section \<open>Facts about the history and its reconciliation\<close>

lemma filter_take_all: "\<forall>x\<in>set xs. P x \<Longrightarrow> filter P (take n xs) = take n xs"
  by (auto simp: filter_id_conv dest: in_set_takeD)

lemma filter_take_none: "\<forall>x\<in>set xs. \<not> P x \<Longrightarrow> filter P (take n xs) = []"
  by (auto simp: filter_empty_conv dest: in_set_takeD)

lemma take_append_take: "take n (xs @ take n ys) = take n (xs @ ys)"
  by (simp add: min_def)

lemma username_swapRecord: "username (swapRecord ns now txId amt fromTok user) = user"
  by (simp add: swapRecord_def)

lemma capped_history_user:
  "filter (\<lambda>h. username h = user) (capped_history ns now txId amt fromTok user storage)
     = take 10 (swapRecord ns now txId amt fromTok user # filter (\<lambda>h. username h = user) storage)"
proof -
  let ?new = "swapRecord ns now txId amt fromTok user # filter (\<lambda>h. username h = user) storage"
  have "\<forall>h\<in>set ?new. username h = user"
    by (simp add: username_swapRecord)
  then have "filter (\<lambda>h. username h = user) (take 10 ?new) = take 10 ?new"
    by (rule filter_take_all)
  then show ?thesis
    by (simp add: capped_history_def Let_def username_swapRecord del: take_Cons_numeral)
qed

lemma capped_history_others:
  "filter (\<lambda>h. username h \<noteq> user) (capped_history ns now txId amt fromTok user storage)
     = filter (\<lambda>h. username h \<noteq> user) storage"
proof -
  let ?new = "swapRecord ns now txId amt fromTok user # filter (\<lambda>h. username h = user) storage"
  have "\<forall>h\<in>set ?new. \<not> username h \<noteq> user"
    by (simp add: username_swapRecord)
  then have "filter (\<lambda>h. username h \<noteq> user) (take 10 ?new) = []"
    by (rule filter_take_none)
  then show ?thesis
    by (simp add: capped_history_def Let_def username_swapRecord del: take_Cons_numeral)
qed

lemma addSwaps_user:
  "subs \<noteq> [] \<Longrightarrow>
   filter (\<lambda>h. username h = user) (addSwaps ns user subs storage)
     = take 10 (map (submitted ns user) (rev subs) @ filter (\<lambda>h. username h = user) storage)"
proof (induction subs arbitrary: storage)
  case Nil
  then show ?case by simp
next
  case (Cons s subs)
  obtain now txId amt fromTok where s: "s = (now, txId, amt, fromTok)"
    by (cases s) auto
  show ?case
  proof (cases "subs = []")
    case True
    then show ?thesis
      by (simp add: s capped_history_user submitted_def del: take_Cons_numeral)
  next
    case False
    then show ?thesis
      using take_append_take [of 10 "map (submitted ns user) (rev subs)"
          "swapRecord ns now txId amt fromTok user # filter (\<lambda>h. username h = user) storage"]
      by (simp add: s Cons.IH capped_history_user submitted_def del: take_Cons_numeral)
  qed
qed

lemma addSwaps_others:
  "filter (\<lambda>h. username h \<noteq> user) (addSwaps ns user subs storage)
     = filter (\<lambda>h. username h \<noteq> user) storage"
proof (induction subs arbitrary: storage)
  case Nil
  show ?case by simp
next
  case (Cons s subs)
  obtain now txId amt fromTok where s: "s = (now, txId, amt, fromTok)"
    by (cases s) auto
  show ?case
    by (simp add: s Cons.IH capped_history_others)
qed

lemma check_all_no_check:
  "\<not> list_ex (\<lambda>h. username h = user \<and> needs_check h) storage
   \<Longrightarrow> check_all W C user storage qs = (storage, qs)"
proof (induction storage)
  case Nil
  show ?case by simp
next
  case (Cons h hs)
  then have hs: "check_all W C user hs qs = (hs, qs)"
    by simp
  show ?case
  proof (cases "username h = user")
    case True
    then have "\<not> needs_check h"
      using Cons.prems by simp
    then have "check_swap W C user h qs = (h, qs)"
      by (auto simp: check_swap_def backfill_def needs_check_def)
    then show ?thesis
      using True hs by simp
  next
    case False
    then show ?thesis
      using hs by simp
  qed
qed

text \<open>A pass over a history in which no record of the user needs a check makes no
  query and persists the history it read: it ends before anything else can run.\<close>

lemma pass_without_queries:
  assumes "\<not> list_ex (\<lambda>h. username h = user \<and> needs_check h) storage"
  shows "fst (snd (loadSwapHistory W C user storage qs)) = storage"
    and "snd (snd (loadSwapHistory W C user storage qs)) = qs"
  using check_all_no_check [OF assms] by (simp_all add: loadSwapHistory_def)

lemma swapHistory_addSwapToHistory:
  "swapHistory (addSwapToHistory ns w now txId amt fromTok user st)
     = capped_history ns now txId amt fromTok user (swapHistory st)"
  by (simp add: addSwapToHistory_def updateSwapHistory_def split: option.splits)

text \<open>As long as no pass completes, the persisted history after a sequence of
  submissions is the composition of the capped histories.\<close>

lemma run_submissions:
  "swapHistory (run ns C w user (map submission subs) st) = addSwaps ns user subs (swapHistory st)"
proof (induction subs arbitrary: st)
  case Nil
  show ?case by simp
next
  case (Cons s subs)
  obtain now txId amt fromTok where s: "s = (now, txId, amt, fromTok)"
    by (cases s) auto
  have e: "submission s = Submit now txId amt fromTok"
    by (simp add: s submission_def)
  show ?case
    by (simp add: e Cons.IH swapHistory_addSwapToHistory) (simp add: s)
qed

text \<open>
  Eleven submissions of one user with no pass completing in between: the records of
  that user are those of the ten most recent submissions, newest first, and the records
  of every other user are as they were.
\<close>

lemma history_cap_uninterrupted:
  assumes "length subs = 11"
  shows "filter (\<lambda>h. username h = user) (swapHistory (run ns C w user (map submission subs) st))
           = map (submitted ns user) (rev (drop 1 subs))
         \<and> filter (\<lambda>h. username h \<noteq> user) (swapHistory (run ns C w user (map submission subs) st))
           = filter (\<lambda>h. username h \<noteq> user) (swapHistory st)"
proof -
  have ne: "subs \<noteq> []"
    using assms by auto
  have "take 10 (rev subs) = rev (drop 1 subs)"
    using assms by (simp add: take_rev)
  then have "take 10 (map (submitted ns user) (rev subs)) = map (submitted ns user) (rev (drop 1 subs))"
    by (metis take_map)
  then have u: "filter (\<lambda>h. username h = user) (addSwaps ns user subs (swapHistory st))
           = map (submitted ns user) (rev (drop 1 subs))"
    using assms by (simp add: addSwaps_user [OF ne])
  show ?thesis
    by (simp add: run_submissions u addSwaps_others)
qed







lemma check_transfers_queries: "snd (check_transfers W C tok txId user qs) = qs @ [Q_getAccountHistory]"
  by (simp add: check_transfers_def checkUswapHiveTransfers_def checkUswapEngineTransfers_def Let_def
      split: sum.splits)

lemma check_transfers_failed:
  "getAccountHistoryAsync W (length qs) = Inl e \<Longrightarrow>
   check_transfers W C tok txId user qs = (None, qs @ [Q_getAccountHistory])"
  by (simp add: check_transfers_def checkUswapHiveTransfers_def checkUswapEngineTransfers_def)

lemma backfill_pending: "status swap = ''pending'' \<Longrightarrow> backfill W C user swap qs = (swap, qs)"
  by (simp add: backfill_def)

lemma check_swap_pending:
  "status swap = ''pending'' \<Longrightarrow> check_swap W C user swap qs = resolve_pending W C user swap qs"
  by (simp add: check_swap_def backfill_pending)

lemma resolve_pending_not_found:
  assumes "check_transfers W C (toToken swap) (txIdSent swap) user qs = (None, qs1)"
    and "check_transfers W C (fromToken swap) (txIdSent swap) user qs1 = (None, qs2)"
  shows "resolve_pending W C user swap qs =
    (if 30000 < Date_now W (length qs2) - timestamp swap \<and> Date_now W (length qs2) - timestamp swap < 600000
     then (if \<not> fst (verifyTransactionExists W (txIdSent swap) (fromToken swap) qs2)
           then swap\<lparr> status := ''not-sent'' \<rparr> else swap,
           snd (verifyTransactionExists W (txIdSent swap) (fromToken swap) qs2))
     else (swap, qs2))"
  using assms by (simp add: resolve_pending_def Let_def split: prod.splits)

lemma failures_hive:
  "checkUswapHiveTransfers (failures_as_negative W) C txId user qs = checkUswapHiveTransfers W C txId user qs"
  by (simp add: checkUswapHiveTransfers_def failures_as_negative_def split: sum.splits)

lemma failures_engine:
  "checkUswapEngineTransfers (failures_as_negative W) C txId user qs = checkUswapEngineTransfers W C txId user qs"
  by (simp add: checkUswapEngineTransfers_def failures_as_negative_def split: sum.splits)

lemma failures_check:
  "check_transfers (failures_as_negative W) C tok txId user qs = check_transfers W C tok txId user qs"
  by (simp add: check_transfers_def failures_hive failures_engine)

lemma failures_verify:
  "verifyTransactionExists (failures_as_negative W) txId fromTok qs = verifyTransactionExists W txId fromTok qs"
  by (simp add: verifyTransactionExists_def failures_as_negative_def split: sum.splits tx_info.splits)

lemma failures_now: "Date_now (failures_as_negative W) = Date_now W"
  by (simp add: failures_as_negative_def)

lemma failures_check_swap:
  "check_swap (failures_as_negative W) C user swap qs = check_swap W C user swap qs"
  by (simp add: check_swap_def backfill_def resolve_pending_def failures_check failures_verify failures_now
      cong: option.case_cong prod.case_cong if_cong)

lemma failures_check_all:
  "check_all (failures_as_negative W) C user storage qs = check_all W C user storage qs"
  by (induction storage arbitrary: qs) (simp_all add: failures_check_swap)

lemma verify_failed:
  "existence_query_fails W txId fromTok (length qs) \<Longrightarrow> \<not> fst (verifyTransactionExists W txId fromTok qs)"
  by (auto simp: existence_query_fails_def verifyTransactionExists_def isl_def split: if_splits)

declare digits_of.simps [simp del]

lemma digits_of_numeral [simp]:
  "digits_of (numeral k) =
     (if (numeral k :: nat) < 10 then [''0123456789'' ! numeral k]
      else digits_of (numeral k div 10) @ [''0123456789'' ! (numeral k mod 10)])"
  by (rule digits_of.simps)

lemma digits_of_small [simp]: "digits_of 0 = ''0''" "digits_of (Suc 0) = ''1''" "digits_of 1 = ''1''"
  by (simp_all add: digits_of.simps)

lemma scan_transfers_found:
  "scan_transfers txId items \<noteq> None \<longleftrightarrow>
     (\<exists>item\<in>set items. \<exists>f t a m. item_op item = Some (Transfer f t a m) \<and> str_includes m txId)"
  by (induction items) (auto split: option.splits operation.splits)

lemma scan_transfers_memo: "scan_transfers txId items = Some r \<Longrightarrow> str_includes (r_memo r) txId"
  by (induction items) (auto simp: found_result_def split: option.splits operation.splits if_splits)

lemma scan_engine_found:
  "scan_engine txId user items \<noteq> None \<longleftrightarrow>
     (\<exists>item\<in>set items. \<exists>i cn ca p. item_op item = Some (CustomJson i (Some (EngineJson cn ca (Some p))))
        \<and> cn = ''tokens'' \<and> ca = ''transfer'' \<and> p_to p = user \<and> p_symbol p = ''SWAP.HIVE''
        \<and> str_includes (p_memo p) txId)"
  by (induction items) (auto split: option.splits operation.splits engine_json.splits)

lemma scan_engine_memo: "scan_engine txId user items = Some r \<Longrightarrow> str_includes (r_memo r) txId"
  by (induction items)
    (auto simp: found_result_def split: option.splits operation.splits engine_json.splits if_splits)

lemma settles_on_hive_iff:
  "settles_on_hive C user txId item \<longleftrightarrow>
     is_transfer_to C user item
     \<and> (\<exists>f t a m. item_op item = Some (Transfer f t a m) \<and> str_includes m txId)"
proof (cases "item_op item")
  case None
  then show ?thesis
    by (simp add: settles_on_hive_def is_transfer_to_def)
next
  case (Some o1)
  then show ?thesis
    by (cases o1) (simp_all add: settles_on_hive_def is_transfer_to_def)
qed

lemma settles_on_engine_iff:
  "settles_on_engine user txId item \<longleftrightarrow>
     is_engine_op item
     \<and> (\<exists>i cn ca p. item_op item = Some (CustomJson i (Some (EngineJson cn ca (Some p))))
        \<and> cn = ''tokens'' \<and> ca = ''transfer'' \<and> p_to p = user \<and> p_symbol p = ''SWAP.HIVE''
        \<and> str_includes (p_memo p) txId)"
proof (cases "item_op item")
  case None
  then show ?thesis
    by (simp add: settles_on_engine_def is_engine_op_def)
next
  case (Some o1)
  show ?thesis
  proof (cases o1)
    case (CustomJson i j)
    show ?thesis
    proof (cases j)
      case None
      then show ?thesis
        using Some CustomJson by (simp add: settles_on_engine_def is_engine_op_def)
    next
      case (Some e)
      obtain cn ca pl where e: "e = EngineJson cn ca pl"
        by (cases e) auto
      show ?thesis
        using \<open>item_op item = Some o1\<close> CustomJson Some e
        by (cases pl) (auto simp: settles_on_engine_def is_engine_op_def)
    qed
  qed (use Some in \<open>simp_all add: settles_on_engine_def is_engine_op_def\<close>)
qed

lemma hive_found:
  "fst (checkUswapHiveTransfers W C txId user qs) \<noteq> None \<longleftrightarrow>
     (\<exists>h. getAccountHistoryAsync W (length qs) = Inr h \<and> (\<exists>item\<in>set h. settles_on_hive C user txId item))"
proof (cases "getAccountHistoryAsync W (length qs)")
  case (Inl e)
  then show ?thesis
    by (simp add: checkUswapHiveTransfers_def)
next
  case (Inr h)
  have "(\<exists>item\<in>set (rev (filter (is_transfer_to C user) h)).
           \<exists>f t a m. item_op item = Some (Transfer f t a m) \<and> str_includes m txId)
        \<longleftrightarrow> (\<exists>item\<in>set h. settles_on_hive C user txId item)"
    unfolding settles_on_hive_iff by auto
  then show ?thesis
    using Inr scan_transfers_found [of txId "rev (filter (is_transfer_to C user) h)"]
    by (simp add: checkUswapHiveTransfers_def Let_def)
qed

lemma engine_found:
  "fst (checkUswapEngineTransfers W C txId user qs) \<noteq> None \<longleftrightarrow>
     (\<exists>h. getAccountHistoryAsync W (length qs) = Inr h \<and> (\<exists>item\<in>set h. settles_on_engine user txId item))"
proof (cases "getAccountHistoryAsync W (length qs)")
  case (Inl e)
  then show ?thesis
    by (simp add: checkUswapEngineTransfers_def)
next
  case (Inr h)
  have "(\<exists>item\<in>set (rev (filter is_engine_op h)).
           \<exists>i cn ca p. item_op item = Some (CustomJson i (Some (EngineJson cn ca (Some p))))
              \<and> cn = ''tokens'' \<and> ca = ''transfer'' \<and> p_to p = user \<and> p_symbol p = ''SWAP.HIVE''
              \<and> str_includes (p_memo p) txId)
        \<longleftrightarrow> (\<exists>item\<in>set h. settles_on_engine user txId item)"
    unfolding settles_on_engine_iff by auto
  then show ?thesis
    using Inr scan_engine_found [of txId user "rev (filter is_engine_op h)"]
    by (simp add: checkUswapEngineTransfers_def Let_def)
qed

lemma check_transfers_memo:
  "fst (check_transfers W C tok txId user qs) = Some r \<Longrightarrow> str_includes (r_memo r) txId"
  by (auto simp: check_transfers_def checkUswapHiveTransfers_def checkUswapEngineTransfers_def Let_def
      split: if_splits sum.splits dest: scan_transfers_memo scan_engine_memo)

lemma executeSwap_requests:
  assumes "validateSwap pf C w cs = Inr ok" and "installed K"
  shows "\<exists>rq. requests (executeSwap pf ns C K w cs now storage) = [rq]
    \<and> request_memo rq = Some (toFixed ns (roundTo (JNum (minReceive cs)) 3) 3)"
  using assms
  by (auto simp: executeSwap_def executeHiveToSwapHive_def executeSwapHiveToHive_def Let_def
      split: option.splits sum.splits)

lemma alice_quote_fields:
  "minReceive alice_quote = Fin (99789 / 1000)" "amount alice_quote = Fin 100" "swap_from alice_quote = ''HIVE''"
  unfolding alice_quote_def by code_simp+

lemma alice_valid: "validateSwap (\<lambda>s. NaN) CONFIG alice_wallet alice_quote = Inr True"
  by (simp add: validateSwap_def validateSwapAmount_def alice_quote_fields alice_wallet_def truthy_def
      getBalance_def CONFIG_def isPositiveNumber_Fin js_greater_def)

section \<open>Claims about the numeric helpers and the pricing engine\<close>

text \<open>
  Claim C10 as stated fails: the helpers are not total. \<open>roundTo\<close> and \<open>floorTo\<close>
  throw a \<open>TypeError\<close> on a number with a Symbol or a BigInt for \<open>decimals\<close>;
  \<open>safeDivide\<close> throws a \<open>TypeError\<close> on a BigInt divided by a number or on a
  Symbol, and a \<open>RangeError\<close> on a BigInt divided by \<open>0n\<close>; \<open>parseNumber\<close>
  throws on a BigInt, and so does the quote pipeline on a BigInt amount or a Symbol
  slippage.
\<close>

theorem helpers_throw_counterexample:
  "roundTo_any (\<lambda>s. NaN) (\<lambda>x. NaN) (Plain (JNum (Fin (3 / 2)))) JSymbol = Inl TypeError
   \<and> floorTo_any (\<lambda>s. NaN) (\<lambda>x. NaN) (Plain (JNum (Fin (3 / 2)))) (JBigInt 2) = Inl TypeError
   \<and> safeDivide_any (\<lambda>s. NaN) (\<lambda>x. NaN) (JBigInt 1) (Plain (JNum (Fin 2))) = Inl TypeError
   \<and> safeDivide_any (\<lambda>s. NaN) (\<lambda>x. NaN) (JBigInt 1) (JBigInt 0) = Inl RangeError
   \<and> safeDivide_any (\<lambda>s. NaN) (\<lambda>x. NaN) JSymbol (Plain (JNum (Fin 2))) = Inl TypeError
   \<and> parseNumber_any (\<lambda>s. NaN) (\<lambda>s. NaN) (JBigInt 100) (Plain (JNum (Fin 0))) = Inl TypeError
   \<and> updateSwapCalculation_any (\<lambda>s. NaN) (\<lambda>s. NaN) CONFIG feeConfig (JBigInt 100) ''HIVE'' ''SWAP.HIVE''
        (Plain (JNum (Fin (1 / 100)))) = Inl TypeError
   \<and> updateSwapCalculation_any (\<lambda>s. NaN) (\<lambda>s. NaN) CONFIG feeConfig (Plain (JNum (Fin 100))) ''HIVE''
        ''SWAP.HIVE'' JSymbol = Inl TypeError"
  by (simp add: roundTo_any_def floorTo_any_def safeDivide_any_def js_divide_def ToNumeric_def
      ToNumber_def default_arg_def parseNumber_any_def updateSwapCalculation_any_def Let_def)

text \<open>
  Claim C10, amended. Whatever \<open>decimals\<close> is, \<open>roundTo\<close> and \<open>floorTo\<close> return
  0 without throwing for every value that is not a number or is \<open>NaN\<close>; they throw
  exactly when the value is a number other than \<open>NaN\<close> and \<open>decimals\<close> cannot be
  converted to a number. \<open>safeDivide\<close> returns 0 without throwing whenever the
  divisor is the number 0, whatever the dividend. The quote pipeline throws exactly
  when the amount or the slippage cannot be converted to a number (a BigInt, a Symbol,
  an object whose conversion throws or gives one of these); so it never throws on a
  number, a string, \<open>undefined\<close> or \<open>null\<close>, where it returns the quote of
  \<open>updateSwapCalculation\<close>. On an amount that is not a positive finite number, with a
  slippage that can be converted, it returns the zero quote with a minimum to receive of
  0.
\<close>

theorem numeric_helpers_guarded:
  assumes "v = Plain (JNum NaN) \<or> (\<forall>x. v \<noteq> Plain (JNum x))"
    and "isPositiveNumber_any pf sn amount_in = Inr False"
    and "\<not> isl (ToNumber sn slippage_in)"
  shows "roundTo_any sn pw v d = Inr (Fin 0) \<and> floorTo_any sn pw v d = Inr (Fin 0)
    \<and> (isl (roundTo_any sn pw u d) \<longleftrightarrow>
         (\<exists>x. u = Plain (JNum x) \<and> \<not> isNaN x) \<and> isl (ToNumber sn (default_arg d (Plain (JNum (Fin 3))))))
    \<and> (isl (floorTo_any sn pw u d) \<longleftrightarrow>
         (\<exists>x. u = Plain (JNum x) \<and> \<not> isNaN x) \<and> isl (ToNumber sn (default_arg d (Plain (JNum (Fin 3))))))
    \<and> safeDivide_any sn pw a (Plain (JNum (Fin 0))) = Inr (Fin 0)
    \<and> (isl (updateSwapCalculation_any pf sn C F amt_in fromTok toTok slp_in)
         \<longleftrightarrow> isl (ToNumber sn amt_in) \<or> isl (ToNumber sn slp_in))
    \<and> updateSwapCalculation_any pf sn C F (Plain p) fromTok toTok (Plain q)
         = Inr (as_any (updateSwapCalculation pf C F p fromTok toTok q))
    \<and> (\<exists>amt slp. updateSwapCalculation_any pf sn C F amount_in fromTok toTok slippage_in
         = Inr \<lparr> expected = Fin 0, fee = Fin 0, feePercent = Fin 0,
                 any_from = fromTok, any_to = toTok, any_amount = amt, any_slippage = slp,
                 any_minReceive = Fin 0 \<rparr>)"
proof -
  have g: "(\<forall>x. v \<noteq> Plain (JNum x)) \<or> v = Plain (JNum NaN)"
    using assms(1) by blast
  obtain amt where amt: "parseNumber_any pf sn amount_in (Plain (JNum (Fin 0))) = Inr amt"
    using assms(2) by (cases "parseNumber_any pf sn amount_in (Plain (JNum (Fin 0)))")
      (simp_all add: isPositiveNumber_any_def)
  obtain slp where slp: "parseNumber_any pf sn slippage_in (Plain (JNum (Fin (1 / 100)))) = Inr slp"
    using assms(3) parseNumber_any_isl [of pf sn slippage_in "Plain (JNum (Fin (1 / 100)))"]
    by (cases "parseNumber_any pf sn slippage_in (Plain (JNum (Fin (1 / 100))))") simp_all
  obtain a s where as: "\<not> isNaN s"
    "isPositiveNumber_any pf sn amount_in = Inr (isPositiveNumber pf (JNum a))"
    "updateSwapCalculation_any pf sn C F amount_in fromTok toTok slippage_in =
       Inr \<lparr> expected = expected (calculateExpectedOutput pf C F a fromTok toTok),
             fee = fee (calculateExpectedOutput pf C F a fromTok toTok),
             feePercent = feePercent (calculateExpectedOutput pf C F a fromTok toTok),
             any_from = fromTok, any_to = toTok, any_amount = amt, any_slippage = slp,
             any_minReceive =
               roundTo (JNum (safeMultiply (expected (calculateExpectedOutput pf C F a fromTok toTok))
                                (js_sub (Fin 1) (js_div s (Fin 100))))) 3 \<rparr>"
    using updateSwapCalculation_any_eq [OF amt slp, of C F fromTok toTok] by blast
  have "\<not> isPositiveNumber pf (JNum a)"
    using assms(2) as(2) by simp
  then have q: "calculateExpectedOutput pf C F a fromTok toTok
                  = \<lparr> expected = Fin 0, fee = Fin 0, feePercent = Fin 0 \<rparr>"
    by (simp add: calculateExpectedOutput_def)
  have z: "\<exists>amt slp. updateSwapCalculation_any pf sn C F amount_in fromTok toTok slippage_in
         = Inr \<lparr> expected = Fin 0, fee = Fin 0, feePercent = Fin 0,
                 any_from = fromTok, any_to = toTok, any_amount = amt, any_slippage = slp,
                 any_minReceive = Fin 0 \<rparr>"
    using as(3) slippageFactor_not_NaN [OF as(1)] by (simp add: q zero_times_rounds_to_zero)
  show ?thesis
    by (intro conjI roundTo_any_guard [OF g] floorTo_any_guard [OF g] roundTo_any_isl floorTo_any_isl
        safeDivide_any_zero updateSwapCalculation_any_isl updateSwapCalculation_any_Plain z)
qed

theorem numeric_helpers_guarded_witness:
  "(JBigInt 5 = Plain (JNum NaN) \<or> (\<forall>x. JBigInt 5 \<noteq> Plain (JNum x)))
   \<and> isPositiveNumber_any (\<lambda>s. NaN) (\<lambda>s. NaN) (Plain (JStr ''abc'')) = Inr False
   \<and> \<not> isl (ToNumber (\<lambda>s. NaN) (JBool True))
   \<and> roundTo_any (\<lambda>s. NaN) (\<lambda>x. NaN) (JBigInt 5) JSymbol = Inr (Fin 0)
   \<and> floorTo_any (\<lambda>s. NaN) (\<lambda>x. NaN) (JBigInt 5) JSymbol = Inr (Fin 0)
   \<and> safeDivide_any (\<lambda>s. NaN) (\<lambda>x. NaN) JSymbol (Plain (JNum (Fin 0))) = Inr (Fin 0)
   \<and> (\<exists>amt slp. updateSwapCalculation_any (\<lambda>s. NaN) (\<lambda>s. NaN) CONFIG feeConfig (Plain (JStr ''abc''))
          ''HIVE'' ''SWAP.HIVE'' (JBool True)
         = Inr \<lparr> expected = Fin 0, fee = Fin 0, feePercent = Fin 0,
                 any_from = ''HIVE'', any_to = ''SWAP.HIVE'', any_amount = amt, any_slippage = slp,
                 any_minReceive = Fin 0 \<rparr>)"
proof -
  have g: "JBigInt 5 = Plain (JNum NaN) \<or> (\<forall>x. JBigInt 5 \<noteq> Plain (JNum x))"
    by simp
  have p: "isPositiveNumber_any (\<lambda>s. NaN) (\<lambda>s. NaN) (Plain (JStr ''abc'')) = Inr False"
    by (simp add: isPositiveNumber_any_def parseNumber_any_def ToNumber_def js_gt_zero_def
        js_greater_def Let_def)
  have s: "\<not> isl (ToNumber (\<lambda>s. NaN) (JBool True))"
    by (simp add: ToNumber_def)
  note w = numeric_helpers_guarded [OF g p s, of "\<lambda>x. NaN" JSymbol _ JSymbol CONFIG feeConfig _
      "''HIVE''" "''SWAP.HIVE''"]
  show ?thesis
    using w by (intro conjI g p s) blast+
qed

text \<open>
  Claim C2 as stated fails: the minimum to receive is rounded to the nearest thousandth,
  not truncated. For 100 HIVE at a slippage of 0.3 the code gives 99.5, the truncation
  gives 99.499.
\<close>

theorem minReceive_floor_counterexample:
  "expected (updateSwapCalculation (\<lambda>s. NaN) CONFIG feeConfig (JNum (Fin 100)) ''HIVE'' ''SWAP.HIVE''
       (JNum (Fin (3 / 10)))) = Fin (99799 / 1000)
   \<and> slippage (updateSwapCalculation (\<lambda>s. NaN) CONFIG feeConfig (JNum (Fin 100)) ''HIVE'' ''SWAP.HIVE''
       (JNum (Fin (3 / 10)))) = Fin (3 / 10)
   \<and> minReceive (updateSwapCalculation (\<lambda>s. NaN) CONFIG feeConfig (JNum (Fin 100)) ''HIVE'' ''SWAP.HIVE''
       (JNum (Fin (3 / 10)))) = Fin (995 / 10)
   \<and> spec_minReceive_floor (99799 / 1000) (3 / 10) = 99499 / 1000
   \<and> minReceive (updateSwapCalculation (\<lambda>s. NaN) CONFIG feeConfig (JNum (Fin 100)) ''HIVE'' ''SWAP.HIVE''
       (JNum (Fin (3 / 10)))) \<noteq> Fin (spec_minReceive_floor (99799 / 1000) (3 / 10))"
  by code_simp

text \<open>
  Claim C2, amended. For every quote of \<open>updateSwapCalculation\<close> whose expected
  output is finite and at most a million in absolute value and whose slippage lies
  between 0 and 100, \<open>minReceive\<close> is a multiple of 0.001 that lies within
  0.00050001 of the expected output times \<open>1 - slippage/100\<close>: the product rounded to
  a nearest thousandth (after the intermediate rounding to 8 places), not truncated.
  Which of two equally near thousandths is taken is left open: in the source that
  depends on the binary representation of the product. The bounds on the quote keep the
  product in the range where a double resolves the eighth decimal place.
\<close>

theorem minReceive_nearest_thousandth:
  assumes "expected (updateSwapCalculation pf C F amount_in fromTok toTok slippage_in) = Fin e"
    and "slippage (updateSwapCalculation pf C F amount_in fromTok toTok slippage_in) = Fin s"
    and "\<bar>e\<bar> \<le> 10 ^ 6" and "0 \<le> s" and "s \<le> 100"
  shows "\<exists>k. minReceive (updateSwapCalculation pf C F amount_in fromTok toTok slippage_in)
               = Fin (of_int k / 1000)
            \<and> \<bar>of_int k / 1000 - e * (1 - s / 100)\<bar> \<le> 1 / 2000 + 1 / 10 ^ 8"
  using minReceive_Fin [OF assms(1,2)] spec_minReceive_round_near [of e s] by auto

theorem minReceive_nearest_thousandth_witness:
  "expected (updateSwapCalculation (\<lambda>s. NaN) CONFIG feeConfig (JNum (Fin 250)) ''SWAP.HIVE'' ''HIVE''
       (JNum (Fin (1 / 2)))) = Fin (49899 / 200)
   \<and> slippage (updateSwapCalculation (\<lambda>s. NaN) CONFIG feeConfig (JNum (Fin 250)) ''SWAP.HIVE'' ''HIVE''
       (JNum (Fin (1 / 2)))) = Fin (1 / 2)
   \<and> \<bar>49899 / 200 :: rat\<bar> \<le> 10 ^ 6 \<and> (0 :: rat) \<le> 1 / 2 \<and> (1 / 2 :: rat) \<le> 100
   \<and> minReceive (updateSwapCalculation (\<lambda>s. NaN) CONFIG feeConfig (JNum (Fin 250)) ''SWAP.HIVE'' ''HIVE''
       (JNum (Fin (1 / 2)))) = Fin (248248 / 1000)
   \<and> (\<exists>k. minReceive (updateSwapCalculation (\<lambda>s. NaN) CONFIG feeConfig (JNum (Fin 250)) ''SWAP.HIVE'' ''HIVE''
              (JNum (Fin (1 / 2)))) = Fin (of_int k / 1000)
          \<and> \<bar>of_int k / 1000 - (49899 / 200 :: rat) * (1 - (1 / 2) / 100)\<bar> \<le> 1 / 2000 + 1 / 10 ^ 8)"
proof -
  have e: "expected (updateSwapCalculation (\<lambda>s. NaN) CONFIG feeConfig (JNum (Fin 250)) ''SWAP.HIVE'' ''HIVE''
       (JNum (Fin (1 / 2)))) = Fin (49899 / 200)"
    by code_simp
  have s: "slippage (updateSwapCalculation (\<lambda>s. NaN) CONFIG feeConfig (JNum (Fin 250)) ''SWAP.HIVE'' ''HIVE''
       (JNum (Fin (1 / 2)))) = Fin (1 / 2)"
    by code_simp
  have m: "minReceive (updateSwapCalculation (\<lambda>s. NaN) CONFIG feeConfig (JNum (Fin 250)) ''SWAP.HIVE'' ''HIVE''
       (JNum (Fin (1 / 2)))) = Fin (248248 / 1000)"
    by code_simp
  have b: "\<bar>49899 / 200 :: rat\<bar> \<le> 10 ^ 6" "(0 :: rat) \<le> 1 / 2" "(1 / 2 :: rat) \<le> 100"
    by simp_all
  have k: "\<exists>k. minReceive (updateSwapCalculation (\<lambda>s. NaN) CONFIG feeConfig (JNum (Fin 250)) ''SWAP.HIVE'' ''HIVE''
              (JNum (Fin (1 / 2)))) = Fin (of_int k / 1000)
          \<and> \<bar>of_int k / 1000 - (49899 / 200 :: rat) * (1 - (1 / 2) / 100)\<bar> \<le> 1 / 2000 + 1 / 10 ^ 8"
    by (rule minReceive_nearest_thousandth [OF e s b])
  show ?thesis
    by (intro conjI e s m b k)
qed







section \<open>Claims about the swap history and its reconciliation\<close>

text \<open>
  Claim C8 does not hold of the code when a reconciliation pass overlaps a submission.
  \<open>addSwapToHistory\<close> ends by starting a pass of \<open>loadSwapHistory\<close> on the history
  it has just persisted, and the pass writes that list back once its queries have
  answered. Alice submits \<open>t01\<close> and \<open>t02\<close>; the pass started by the first
  submission completes (the ledgers show no settlement); she submits \<open>t03\<close> to
  \<open>t11\<close>. After the eleventh invocation the persisted history holds \<open>t11\<close> to
  \<open>t03\<close> and \<open>t01\<close>: the second submission, one of the ten most recent, is lost,
  and the oldest is kept. With no pass completing in between, the same eleven
  submissions leave \<open>t11\<close> to \<open>t02\<close>. After the first two submissions alone, the
  completing pass leaves \<open>t01\<close> only.
\<close>

theorem history_cap_lost_update:
  "map txIdSent (swapHistory (run (\<lambda>x. []) CONFIG alice_wallet ''alice'' overlapping_submissions
        \<lparr> swapHistory = [], in_flight = [] \<rparr>))
     = [''t11'', ''t10'', ''t09'', ''t08'', ''t07'', ''t06'', ''t05'', ''t04'', ''t03'', ''t01'']
   \<and> map txIdSent (swapHistory (run (\<lambda>x. []) CONFIG alice_wallet ''alice''
        (map submission eleven_submissions) \<lparr> swapHistory = [], in_flight = [] \<rparr>))
     = [''t11'', ''t10'', ''t09'', ''t08'', ''t07'', ''t06'', ''t05'', ''t04'', ''t03'', ''t02'']
   \<and> map txIdSent (swapHistory (run (\<lambda>x. []) CONFIG alice_wallet ''alice''
        (map submission (take 2 eleven_submissions) @ [Complete (ledger_with [] True 3) 0])
        \<lparr> swapHistory = [], in_flight = [] \<rparr>)) = [''t01'']"
  by (simp add: overlapping_submissions_def eleven_submissions_def submission_def addSwapToHistory_def
      updateSwapHistory_def alice_wallet_def capped_history_def swapRecord_def needs_check_def
      complete_pass_def loadSwapHistory_def check_swap_def backfill_def resolve_pending_def
      check_transfers_def checkUswapHiveTransfers_def checkUswapEngineTransfers_def
      ledger_with_def Let_def)



text \<open>
  Claim C6. A pending record for which neither the completion check nor the refund check
  finds a transfer: if its age is at most 30 seconds or at least 10 minutes, the pass
  leaves it as it is and makes no query beyond the two history queries (no existence
  check); it is marked \<open>not-sent\<close> exactly when its age is strictly between 30
  seconds and 10 minutes and \<open>verifyTransactionExists\<close> reports the transaction absent;
  otherwise it stays \<open>pending\<close>.
\<close>

theorem age_window:
  assumes "status swap = ''pending''"
    and "check_transfers W C (toToken swap) (txIdSent swap) user qs = (None, qs1)"
    and "check_transfers W C (fromToken swap) (txIdSent swap) user qs1 = (None, qs2)"
    and "age = Date_now W (length qs2) - timestamp swap"
  shows "(age \<le> 30000 \<or> 600000 \<le> age \<longrightarrow>
            check_swap W C user swap qs = (swap, qs @ [Q_getAccountHistory, Q_getAccountHistory]))
       \<and> (status (fst (check_swap W C user swap qs)) = ''not-sent'' \<longleftrightarrow>
            30000 < age \<and> age < 600000
            \<and> \<not> fst (verifyTransactionExists W (txIdSent swap) (fromToken swap) qs2))
       \<and> (status (fst (check_swap W C user swap qs)) = ''not-sent''
            \<or> status (fst (check_swap W C user swap qs)) = ''pending'')"
proof -
  have q1: "qs1 = qs @ [Q_getAccountHistory]"
    using check_transfers_queries [of W C "toToken swap" "txIdSent swap" user qs] assms(2) by simp
  have q2: "qs2 = qs @ [Q_getAccountHistory, Q_getAccountHistory]"
    using check_transfers_queries [of W C "fromToken swap" "txIdSent swap" user qs1] assms(3) q1 by simp
  show ?thesis
    using assms(1) q2
    by (auto simp: check_swap_pending [OF assms(1)] resolve_pending_not_found [OF assms(2,3)] assms(4))
qed

theorem age_window_witness:
  "status alice_swap = ''pending''
   \<and> check_transfers (ledger_with [] False 10000) CONFIG (toToken alice_swap) (txIdSent alice_swap)
        ''alice'' [] = (None, [Q_getAccountHistory])
   \<and> check_transfers (ledger_with [] False 10000) CONFIG (fromToken alice_swap) (txIdSent alice_swap)
        ''alice'' [Q_getAccountHistory] = (None, [Q_getAccountHistory, Q_getAccountHistory])
   \<and> check_swap (ledger_with [] False 10000) CONFIG ''alice'' alice_swap []
       = (alice_swap, [Q_getAccountHistory, Q_getAccountHistory])
   \<and> check_swap (ledger_with [] False 700000) CONFIG ''alice'' alice_swap []
       = (alice_swap, [Q_getAccountHistory, Q_getAccountHistory])
   \<and> status (fst (check_swap (ledger_with [] False 60000) CONFIG ''alice'' alice_swap [])) = ''not-sent''
   \<and> status (fst (check_swap (ledger_with [] True 60000) CONFIG ''alice'' alice_swap [])) = ''pending''"
proof -
  have a: "status alice_swap = ''pending''"
    by (simp add: alice_swap_def)
  have b: "check_transfers (ledger_with [] present t) CONFIG (toToken alice_swap) (txIdSent alice_swap)
        ''alice'' [] = (None, [Q_getAccountHistory])" for present t
    by (simp add: check_transfers_def checkUswapHiveTransfers_def checkUswapEngineTransfers_def
        ledger_with_def)
  have c: "check_transfers (ledger_with [] present t) CONFIG (fromToken alice_swap) (txIdSent alice_swap)
        ''alice'' [Q_getAccountHistory] = (None, [Q_getAccountHistory, Q_getAccountHistory])" for present t
    by (simp add: check_transfers_def checkUswapHiveTransfers_def checkUswapEngineTransfers_def
        ledger_with_def)
  have d: "t = Date_now (ledger_with [] present t) (length [Q_getAccountHistory, Q_getAccountHistory])
             - timestamp alice_swap" for present t
    by (simp add: ledger_with_def alice_swap_def)
  have v: "fst (verifyTransactionExists (ledger_with [] present 60000) (txIdSent alice_swap)
             (fromToken alice_swap) [Q_getAccountHistory, Q_getAccountHistory]) = present" for present
    by (simp add: verifyTransactionExists_def ledger_with_def alice_swap_def)
  show ?thesis
    using age_window [OF a b [where present = False and t = 10000] c [where present = False and t = 10000] d [where present = False and t = 10000]]
      age_window [OF a b [where present = False and t = 700000] c [where present = False and t = 700000] d [where present = False and t = 700000]]
      age_window [OF a b [where present = False and t = 60000] c [where present = False and t = 60000] d [where present = False and t = 60000]]
      age_window [OF a b [where present = True and t = 60000] c [where present = True and t = 60000] d [where present = True and t = 60000]]
      a b [where present = False and t = 10000] c [where present = False and t = 10000]
      v [where present = False] v [where present = True]
    by auto
qed

text \<open>
  Claim C7 as stated fails: \<open>verifyTransactionExists\<close> catches a failed existence
  query and returns false, which the caller reads as "the transaction does not exist".
  With every query failing, a pending record of age 60 seconds is marked \<open>not-sent\<close>.
\<close>

theorem failure_marks_not_sent_counterexample:
  "status alice_swap = ''pending''
   \<and> map status (fst (snd (loadSwapHistory (ledger_down 60000) CONFIG ''alice'' [alice_swap] [])))
       = [''not-sent'']
   \<and> snd (snd (loadSwapHistory (ledger_down 60000) CONFIG ''alice'' [alice_swap] []))
       = [Q_getAccountHistory, Q_getAccountHistory, Q_getTransaction ''abc123'']"
  by code_simp

text \<open>
  Claim C7, amended. A query failure during a resolution pass counts as a negative answer:
  the pass is the one made against ledgers that answer a failed history query with an
  empty history and a failed existence query with "no transaction". A failed history
  query finds no transfer, so it never makes a record completed or refunded; and a
  pending record with no transfer found whose existence query fails is marked
  \<open>not-sent\<close> when its age is strictly between 30 seconds and 10 minutes and stays
  \<open>pending\<close> otherwise.
\<close>

theorem failures_are_negative_answers:
  "loadSwapHistory W C user storage qs = loadSwapHistory (failures_as_negative W) C user storage qs
   \<and> (getAccountHistoryAsync W (length qs) = Inl e \<longrightarrow>
        check_transfers W C tok txId user qs = (None, qs @ [Q_getAccountHistory]))
   \<and> (status swap = ''pending''
        \<and> check_transfers W C (toToken swap) (txIdSent swap) user qs = (None, qs1)
        \<and> check_transfers W C (fromToken swap) (txIdSent swap) user qs1 = (None, qs2)
        \<and> existence_query_fails W (txIdSent swap) (fromToken swap) (length qs2) \<longrightarrow>
        status (fst (check_swap W C user swap qs))
          = (if 30000 < Date_now W (length qs2) - timestamp swap
                \<and> Date_now W (length qs2) - timestamp swap < 600000
             then ''not-sent'' else ''pending''))"
proof -
  have a: "loadSwapHistory W C user storage qs = loadSwapHistory (failures_as_negative W) C user storage qs"
    by (simp add: loadSwapHistory_def failures_check_all)
  have b: "getAccountHistoryAsync W (length qs) = Inl e \<longrightarrow>
        check_transfers W C tok txId user qs = (None, qs @ [Q_getAccountHistory])"
    by (simp add: check_transfers_failed)
  have c: "status (fst (check_swap W C user swap qs))
          = (if 30000 < Date_now W (length qs2) - timestamp swap
                \<and> Date_now W (length qs2) - timestamp swap < 600000
             then ''not-sent'' else ''pending'')"
    if "status swap = ''pending''"
      and "check_transfers W C (toToken swap) (txIdSent swap) user qs = (None, qs1)"
      and "check_transfers W C (fromToken swap) (txIdSent swap) user qs1 = (None, qs2)"
      and "existence_query_fails W (txIdSent swap) (fromToken swap) (length qs2)"
    using that(1) verify_failed [OF that(4)]
    by (simp add: check_swap_pending [OF that(1)] resolve_pending_not_found [OF that(2,3)])
  show ?thesis
    using a b c by blast
qed

theorem failures_are_negative_answers_witness:
  "getAccountHistoryAsync (ledger_down 60000) (length ([] :: query list)) = Inl ''timeout''
   \<and> status alice_swap = ''pending''
   \<and> check_transfers (ledger_down 60000) CONFIG (toToken alice_swap) (txIdSent alice_swap)
        ''alice'' [] = (None, [Q_getAccountHistory])
   \<and> check_transfers (ledger_down 60000) CONFIG (fromToken alice_swap) (txIdSent alice_swap)
        ''alice'' [Q_getAccountHistory] = (None, [Q_getAccountHistory, Q_getAccountHistory])
   \<and> existence_query_fails (ledger_down 60000) (txIdSent alice_swap) (fromToken alice_swap)
        (length [Q_getAccountHistory, Q_getAccountHistory])
   \<and> status (fst (check_swap (ledger_down 60000) CONFIG ''alice'' alice_swap [])) = ''not-sent''"
proof -
  let ?W = "ledger_down 60000"
  have a: "status alice_swap = ''pending''"
    by (simp add: alice_swap_def)
  have h: "getAccountHistoryAsync ?W (length ([] :: query list)) = Inl ''timeout''"
    by (simp add: ledger_down_def)
  have b: "check_transfers ?W CONFIG (toToken alice_swap) (txIdSent alice_swap)
        ''alice'' [] = (None, [Q_getAccountHistory])"
    by code_simp
  have c: "check_transfers ?W CONFIG (fromToken alice_swap) (txIdSent alice_swap)
        ''alice'' [Q_getAccountHistory] = (None, [Q_getAccountHistory, Q_getAccountHistory])"
    by code_simp
  have f: "existence_query_fails ?W (txIdSent alice_swap) (fromToken alice_swap)
        (length [Q_getAccountHistory, Q_getAccountHistory])"
    by (simp add: existence_query_fails_def ledger_down_def alice_swap_def)
  have t: "Date_now ?W (length [Q_getAccountHistory, Q_getAccountHistory]) - timestamp alice_swap = 60000"
    by (simp add: ledger_down_def alice_swap_def)
  show ?thesis
    using failures_are_negative_answers
      [of ?W CONFIG "''alice''" "[alice_swap]" "[]" "''timeout''" "''HIVE''" "''abc123''" alice_swap
          "[Q_getAccountHistory]" "[Q_getAccountHistory, Q_getAccountHistory]"]
      a h b c f t
    by simp
qed

text \<open>
  Claim C9 as stated fails in its second half: the memo sent at submission is the
  formatted \<open>minReceive\<close>, but the resolution looks for the submitted transaction id
  in the memo of the settlement. A settlement whose memo is the \<open>minReceive\<close> memo
  \<open>99.789\<close> is not found; one whose memo holds the transaction id is.
\<close>

theorem memo_is_not_the_correlation_key_counterexample:
  "map request_memo (requests (executeSwap (\<lambda>s. NaN) (\<lambda>x. []) CONFIG (keychain_accepting ''abc123'')
        alice_wallet alice_quote 0 [])) = [Some ''99.789'']
   \<and> map txIdSent (history_after (executeSwap (\<lambda>s. NaN) (\<lambda>x. []) CONFIG (keychain_accepting ''abc123'')
        alice_wallet alice_quote 0 [])) = [''abc123'']
   \<and> fst (check_transfers (ledger_with [settlement ''99.789''] True 60000) CONFIG ''SWAP.HIVE''
        ''abc123'' ''alice'' []) = None
   \<and> fst (check_transfers (ledger_with [settlement ''abc123''] True 60000) CONFIG ''SWAP.HIVE''
        ''abc123'' ''alice'' []) \<noteq> None"
proof -
  have 1: "fst (check_transfers (ledger_with [settlement ''99.789''] True 60000) CONFIG ''SWAP.HIVE''
        ''abc123'' ''alice'' []) = None"
    by code_simp
  have 2: "fst (check_transfers (ledger_with [settlement ''abc123''] True 60000) CONFIG ''SWAP.HIVE''
        ''abc123'' ''alice'' []) \<noteq> None"
    by code_simp
  have 3: "executeSwap (\<lambda>s. NaN) (\<lambda>x. []) CONFIG (keychain_accepting ''abc123'') alice_wallet alice_quote 0 []
     = \<lparr> returned = Some True,
         requests = [RequestTransfer ''alice'' ''uswap'' ''100.000'' ''99.789'' ''HIVE''],
         history_after = [alice_swap], passes_started = [(''alice'', [alice_swap])] \<rparr>"
    unfolding executeSwap_def alice_valid
    by (simp add: alice_quote_fields alice_wallet_def keychain_accepting_def
        executeHiveToSwapHive_def settle_def truthy_def CONFIG_def addSwapToHistory_def
        updateSwapHistory_def needs_check_def capped_history_def swapRecord_def
        alice_swap_def toFixed_def roundTo_3 round_dp_def floor_rat Let_def)
  show ?thesis
    using 1 2 by (simp add: 3 alice_swap_def)
qed

text \<open>
  Claim C9, amended. When validation passes and the signing service is installed,
  \<open>executeSwap\<close> makes one request to it, whose memo is \<open>minReceive\<close> rounded and
  formatted to 3 decimal places. The key by which the resolution finds the settlement in
  the bridge history is the submitted transaction id: a check finds a transfer exactly
  when the history holds a transfer of the bridge to the user whose memo contains that
  id, and the memo of the transfer it returns contains it.
\<close>

theorem memo_and_correlation_key:
  "(validateSwap pf C w cs = Inr ok \<and> installed K \<longrightarrow>
      (\<exists>rq. requests (executeSwap pf ns C K w cs now storage) = [rq]
         \<and> request_memo rq = Some (toFixed ns (roundTo (JNum (minReceive cs)) 3) 3)))
   \<and> (fst (checkUswapHiveTransfers W C txId user qs) \<noteq> None \<longleftrightarrow>
        (\<exists>h. getAccountHistoryAsync W (length qs) = Inr h
           \<and> (\<exists>item\<in>set h. settles_on_hive C user txId item)))
   \<and> (fst (checkUswapEngineTransfers W C txId user qs) \<noteq> None \<longleftrightarrow>
        (\<exists>h. getAccountHistoryAsync W (length qs) = Inr h
           \<and> (\<exists>item\<in>set h. settles_on_engine user txId item)))
   \<and> (fst (check_transfers W C tok txId user qs) = Some r \<longrightarrow> str_includes (r_memo r) txId)"
  using executeSwap_requests [of pf C w cs ok K ns now storage]
    hive_found [of W C txId user qs] engine_found [of W C txId user qs]
    check_transfers_memo [of W C tok txId user qs r]
  by blast

theorem memo_and_correlation_key_witness:
  "validateSwap (\<lambda>s. NaN) CONFIG alice_wallet alice_quote = Inr True
   \<and> installed (keychain_accepting ''abc123'')
   \<and> (\<exists>rq. requests (executeSwap (\<lambda>s. NaN) (\<lambda>x. []) CONFIG (keychain_accepting ''abc123'')
              alice_wallet alice_quote 0 []) = [rq]
         \<and> request_memo rq = Some ''99.789'')
   \<and> fst (check_transfers (ledger_with [settlement ''Swap abc123''] True 60000) CONFIG ''SWAP.HIVE''
        ''abc123'' ''alice'' []) = Some (found_result ''99.800 SWAP.HIVE'' ''def456'' ''Swap abc123'')
   \<and> str_includes ''Swap abc123'' ''abc123''"
proof -
  have i: "installed (keychain_accepting ''abc123'')"
    by (simp add: keychain_accepting_def)
  have m: "toFixed (\<lambda>x. []) (roundTo (JNum (minReceive alice_quote)) 3) 3 = ''99.789''"
    by (simp add: alice_quote_fields toFixed_def roundTo_3 round_dp_def floor_rat Let_def)
  have c: "fst (check_transfers (ledger_with [settlement ''Swap abc123''] True 60000) CONFIG ''SWAP.HIVE''
        ''abc123'' ''alice'' []) = Some (found_result ''99.800 SWAP.HIVE'' ''def456'' ''Swap abc123'')"
    by code_simp
  show ?thesis
    using memo_and_correlation_key
      [of "\<lambda>s. NaN" CONFIG alice_wallet alice_quote True "keychain_accepting ''abc123''" "\<lambda>x. []" 0 "[]"
          "ledger_with [settlement ''Swap abc123''] True 60000" "''abc123''" "''alice''" "[]"
          "''SWAP.HIVE''" "found_result ''99.800 SWAP.HIVE'' ''def456'' ''Swap abc123''"]
      alice_valid i m c
    by (simp add: found_result_def)
qed

end
